theory Spec2Isabelle
  imports Main "HOL-Library.Sublist"
begin

section \<open>The query builder of JamfUploadSharepointUpdater\<close>

text \<open>
  A criteria dictionary maps a column name to a pair of an operand and a value. The
  processor only ever writes the operands \<open>Eq\<close> and \<open>Neq\<close>. A Python dictionary iterates
  in insertion order, so it is kept as a list of its entries in that order.
\<close>

datatype operand = Eq | Neq

type_synonym criteria = "(string \<times> operand \<times> string) list"

text \<open>An element of the list under \<open>Where\<close>: a tuple \<open>(operand, key, value)\<close> or the word \<open>And\<close>.\<close>

datatype where_item = Cond operand string string | And_word

text \<open>
  The loop of \<open>build_query\<close>: the state is the list under \<open>Where\<close>, the list of fields and
  the flag \<open>first\<close>.
\<close>

fun build_query_loop ::
  "criteria \<Rightarrow> where_item list \<times> string list \<times> bool \<Rightarrow> where_item list \<times> string list \<times> bool"
where
  "build_query_loop [] st = st"
| "build_query_loop ((key, operand, val) # rest) (query, flds, first) =
     build_query_loop rest
       (query @ [Cond operand key val] @ (if \<not> first then [And_word] else []),
        flds @ [key],
        False)"

definition build_query :: "criteria \<Rightarrow> string list \<times> where_item list" where
  "build_query criteria =
     (case build_query_loop criteria ([], [''ID''], True) of
        (query, flds, first) \<Rightarrow> (flds, rev query))"

section \<open>The SharePoint site, as far as the processor uses it\<close>

text \<open>
  The site and the shareplum library are outside the repository. What follows is the
  model of them that the processor is run against: a list holds items, an item holds
  columns with text values, and an item's \<open>ID\<close> is its position in the list (a deleted
  item leaves its position empty, so an \<open>ID\<close> is never used twice). \<open>new_item\<close> holds the
  column values that the list gives to a new item by itself.
\<close>

type_synonym cols = "string \<rightharpoonup> string"

record sp_list =
  items :: "cols option list"
  new_item :: cols

text \<open>A comparison of a column with a value; a column without a value equals no value.\<close>

fun holds :: "operand \<Rightarrow> string option \<Rightarrow> string \<Rightarrow> bool" where
  "holds Eq cell val = (cell = Some val)"
| "holds Neq cell val = (cell \<noteq> Some val)"

text \<open>
  Modelled from the spec: the store's boolean-tree representation of a predicate
  conjunction. The library walks the list under \<open>Where\<close> from the left; the word \<open>And\<close>
  opens an element that takes everything after it, a tuple becomes a comparison inside
  the element that is open. The site accepts an \<open>And\<close> element with exactly two operands
  and a \<open>Where\<close> with exactly one.
\<close>

datatype caml = Comparison operand string string | And_element "caml list"

fun nest :: "where_item list \<Rightarrow> caml list" where
  "nest [] = []"
| "nest (And_word # rest) = [And_element (nest rest)]"
| "nest (Cond operand key val # rest) = Comparison operand key val # nest rest"

fun caml_eval :: "caml \<Rightarrow> cols \<Rightarrow> bool option" where
  "caml_eval (Comparison operand key val) item = Some (holds operand (item key) val)"
| "caml_eval (And_element [a, b]) item =
     (case caml_eval a item of
        None \<Rightarrow> None
      | Some x \<Rightarrow> (case caml_eval b item of None \<Rightarrow> None | Some y \<Rightarrow> Some (x \<and> y)))"
| "caml_eval (And_element operands) item = None"

definition where_eval :: "where_item list \<Rightarrow> cols \<Rightarrow> bool option" where
  "where_eval query item = (case nest query of [c] \<Rightarrow> caml_eval c item | _ \<Rightarrow> None)"

text \<open>A row of a result; the processor reads nothing of it but \<open>row["ID"]\<close>.\<close>

datatype row = Row (row_ID: nat)

definition selected :: "sp_list \<Rightarrow> where_item list \<Rightarrow> nat \<Rightarrow> bool" where
  "selected l query i =
     (case items l ! i of None \<Rightarrow> False | Some item \<Rightarrow> where_eval query item = Some True)"

definition list_rows :: "sp_list \<Rightarrow> where_item list \<Rightarrow> row list option" where
  "list_rows l query =
     (if where_eval query Map.empty = None then None
      else Some (map Row (filter (selected l query) [0..<length (items l)])))"

text \<open>
  The three shapes of \<open>UpdateListItems\<close> in the processor: \<open>[{key: value}]\<close> of kind \<open>New\<close>,
  \<open>[{"ID": id, key: value}]\<close> of kind \<open>Update\<close>, and a list of IDs of kind \<open>Delete\<close>.
  A value goes to the site as text: Python's \<open>None\<close> is stored as the text \<open>None\<close>.
\<close>

datatype batch = New string string | Update nat string "string option" | Delete "nat list"

definition text_of :: "string option \<Rightarrow> string" where
  "text_of val = (case val of None \<Rightarrow> ''None'' | Some v \<Rightarrow> v)"

fun apply_batch :: "batch \<Rightarrow> sp_list \<Rightarrow> sp_list" where
  "apply_batch (New key val) l = l\<lparr>items := items l @ [Some ((new_item l)(key \<mapsto> val))]\<rparr>"
| "apply_batch (Update i key val) l =
     (if i < length (items l)
      then l\<lparr>items := (items l)[i := map_option (\<lambda>item. item(key \<mapsto> text_of val)) (items l ! i)]\<rparr>
      else l)"
| "apply_batch (Delete ids) l =
     l\<lparr>items := map (\<lambda>i. if i \<in> set ids then None else items l ! i) [0..<length (items l)]\<rparr>"

datatype call =
    Site_call string string string
  | List_call string
  | GetListItems_call string "string list" "where_item list"
  | UpdateListItems_call string batch

type_synonym site_state = "string \<Rightarrow> sp_list"

text \<open>
  What a call returns: a handle (the site, a list), the rows of a query, or the result
  of a write, which says whether the site has accepted it.
\<close>

datatype reply = Handle | Rows "row list" | Result bool

text \<open>
  The answer of a site that works: \<open>None\<close> when it cannot read the query, else the reply
  and the state after the call.
\<close>

fun respond :: "call \<Rightarrow> site_state \<Rightarrow> (reply \<times> site_state) option" where
  "respond (Site_call url user password) s = Some (Handle, s)"
| "respond (List_call listname) s = Some (Handle, s)"
| "respond (GetListItems_call listname flds query) s =
     (case list_rows (s listname) query of None \<Rightarrow> None | Some rows \<Rightarrow> Some (Rows rows, s))"
| "respond (UpdateListItems_call listname b) s =
     Some (Result True, s(listname := apply_batch b (s listname)))"

section \<open>Programs that call the site\<close>

text \<open>
  A run is a sequence of remote calls, each with what the processor does with the reply.
  An exception leaves through \<open>Raise\<close>; the processor has no handler anywhere, so an
  exception ends the run.
\<close>

datatype error = ProcessorError string | RemoteFailure call

datatype 'a prog =
    Return 'a
  | Raise error
  | Remote call "reply \<Rightarrow> 'a prog"

primrec bind_prog :: "'a prog \<Rightarrow> ('a \<Rightarrow> 'b prog) \<Rightarrow> 'b prog" where
  "bind_prog (Return x) f = f x"
| "bind_prog (Raise e) f = Raise e"
| "bind_prog (Remote c k) f = Remote c (\<lambda>reply. bind_prog (k reply) f)"

text \<open>A block of statements, run one after the other.\<close>

fun block :: "unit prog list \<Rightarrow> unit prog" where
  "block [] = Return ()"
| "block (stmt # stmts) = bind_prog stmt (\<lambda>_. block stmts)"

datatype site = Site_object string

definition site_truthy :: "site \<Rightarrow> bool" where
  "site_truthy site = True"

definition Site :: "string \<Rightarrow> string \<Rightarrow> string \<Rightarrow> site prog" where
  "Site url user password =
     Remote (Site_call url user password) (\<lambda>reply. Return (Site_object url))"

definition site_List :: "site \<Rightarrow> string \<Rightarrow> string prog" where
  "site_List site listname = Remote (List_call listname) (\<lambda>reply. Return listname)"

definition GetListItems :: "string \<Rightarrow> string list \<Rightarrow> where_item list \<Rightarrow> row list prog" where
  "GetListItems sp_list flds query =
     Remote (GetListItems_call sp_list flds query)
       (\<lambda>reply. Return (case reply of Rows rows \<Rightarrow> rows | _ \<Rightarrow> []))"

text \<open>\<open>UpdateListItems\<close> returns the result of the write: whether the site has accepted it.\<close>

definition UpdateListItems :: "string \<Rightarrow> batch \<Rightarrow> bool prog" where
  "UpdateListItems sp_list b =
     Remote (UpdateListItems_call sp_list b)
       (\<lambda>reply. Return (case reply of Result accepted \<Rightarrow> accepted | _ \<Rightarrow> True))"

text \<open>A call as a statement: what it returns is dropped.\<close>

definition discard :: "'a prog \<Rightarrow> unit prog" where
  "discard p = bind_prog p (\<lambda>result. Return ())"

section \<open>The methods of the processor\<close>

definition connect_sharepoint :: "string \<Rightarrow> string \<Rightarrow> string \<Rightarrow> site prog" where
  "connect_sharepoint url user password =
     bind_prog (Site url (CHR ''d'' # CHR 0x5C # user) password) (\<lambda>site.
     if \<not> site_truthy site then Raise (ProcessorError ''Could not connect to SharePoint'')
     else Return site)"

definition check_list :: "site \<Rightarrow> string \<Rightarrow> criteria \<Rightarrow> bool prog" where
  "check_list site listname criteria =
     bind_prog (site_List site listname) (\<lambda>sp_list.
     case build_query criteria of (flds, query) \<Rightarrow>
     bind_prog (GetListItems sp_list flds query) (\<lambda>rows.
     Return (rows \<noteq> [])))"

definition update_record ::
  "site \<Rightarrow> string \<Rightarrow> string \<Rightarrow> string option \<Rightarrow> criteria \<Rightarrow> unit prog" where
  "update_record site listname list_key list_value criteria =
     bind_prog (site_List site listname) (\<lambda>sp_list.
     case build_query criteria of (flds, query) \<Rightarrow>
     bind_prog (GetListItems sp_list flds query) (\<lambda>rows.
     block (map (\<lambda>row. discard (UpdateListItems sp_list
                                   (Update (row_ID row) list_key list_value))) rows)))"

definition add_record :: "site \<Rightarrow> string \<Rightarrow> string \<Rightarrow> string \<Rightarrow> unit prog" where
  "add_record site listname list_key list_value =
     bind_prog (site_List site listname) (\<lambda>sp_list.
     discard (UpdateListItems sp_list (New list_key list_value)))"

text \<open>
  The loop of \<open>delete_record\<close> sends the IDs collected so far at every row.
\<close>

fun delete_loop :: "string \<Rightarrow> row list \<Rightarrow> nat list \<Rightarrow> unit prog" where
  "delete_loop sp_list [] delete_data = Return ()"
| "delete_loop sp_list (row # rows) delete_data =
     bind_prog (discard (UpdateListItems sp_list (Delete (delete_data @ [row_ID row])))) (\<lambda>_.
     delete_loop sp_list rows (delete_data @ [row_ID row]))"

definition delete_record :: "site \<Rightarrow> string \<Rightarrow> criteria \<Rightarrow> unit prog" where
  "delete_record site listname criteria =
     bind_prog (site_List site listname) (\<lambda>sp_list.
     case build_query criteria of (flds, query) \<Rightarrow>
     bind_prog (GetListItems sp_list flds query) (\<lambda>rows.
     delete_loop sp_list rows []))"

subsection \<open>The test report URL\<close>

text \<open>
  \<open>urllib.parse.urlencode\<close> of a dictionary of strings: every key and value goes through
  \<open>quote_plus\<close>, which keeps letters, digits and \<open>_.-~\<close>, writes a space as \<open>+\<close> and every
  other byte as \<open>%\<close> and two upper-case hexadecimal digits. A string is the list of the
  bytes of its UTF-8 encoding.
\<close>

definition always_safe :: "char \<Rightarrow> bool" where
  "always_safe c =
     (c \<in> set ''ABCDEFGHIJKLMNOPQRSTUVWXYZabcdefghijklmnopqrstuvwxyz0123456789_.-~'')"

definition hex_digit :: "nat \<Rightarrow> char" where
  "hex_digit n = ''0123456789ABCDEF'' ! (n mod 16)"

definition quote_byte :: "char \<Rightarrow> string" where
  "quote_byte c =
     (if c = CHR '' '' then ''+''
      else if always_safe c then [c]
      else [CHR ''%'', hex_digit (of_char c div 16), hex_digit (of_char c mod 16)])"

definition quote_plus :: "string \<Rightarrow> string" where
  "quote_plus s = concat (map quote_byte s)"

fun urlencode :: "(string \<times> string) list \<Rightarrow> string" where
  "urlencode [] = []"
| "urlencode [(k, v)] = quote_plus k @ ''='' @ quote_plus v"
| "urlencode ((k, v) # params) = quote_plus k @ ''='' @ quote_plus v @ ''&'' @ urlencode params"

definition test_report_url :: "string \<Rightarrow> string \<Rightarrow> string" where
  "test_report_url sp_url policy_name =
     (let params = [(''Title'', policy_name)];
          url_encoded = urlencode params;
          list_name_url = ''Jamf_Item_Test''
      in sp_url @ ''/Lists/'' @ list_name_url @ ''/DispForm.aspx?'' @ url_encoded)"

section \<open>The main method\<close>

text \<open>
  The values that \<open>main\<close> reads from the environment. The inputs that the processor
  declares as required, and \<open>POLICY_CATEGORY\<close> with its default, are strings; every other
  input may be absent (\<open>None\<close>).
\<close>

record inputs =
  POLICY_CATEGORY :: string
  PKG_CATEGORY :: string
  version :: string
  NAME :: string
  SELFSERVICE_POLICY_NAME :: "string option"
  LANGUAGE :: "string option"
  LICENSE :: "string option"
  MAJOR_VERSION :: "string option"
  PLATFORM :: "string option"
  SP_EXECUTABLE_COMMAND :: "string option"
  SP_PROCESS_NAME :: "string option"
  JSS_URL :: string
  SP_URL :: string
  SP_USER :: string
  SP_PASS :: string

text \<open>Python's \<open>sub in s\<close> on strings.\<close>

fun py_in :: "string \<Rightarrow> string \<Rightarrow> bool" where
  "py_in sub [] = (sub = [])"
| "py_in sub (c # s) = (prefix sub (c # s) \<or> py_in sub s)"

text \<open>\<open>if segment: final_policy_name = final_policy_name + " " + segment\<close>\<close>

definition append_segment :: "string \<Rightarrow> string option \<Rightarrow> string" where
  "append_segment final_policy_name segment =
     (case segment of
        None \<Rightarrow> final_policy_name
      | Some s \<Rightarrow> if s \<noteq> [] then final_policy_name @ '' '' @ s else final_policy_name)"

definition untested_final_policy_name :: "inputs \<Rightarrow> string" where
  "untested_final_policy_name i =
     (let final_policy_name = NAME i;
          final_policy_name = append_segment final_policy_name (MAJOR_VERSION i);
          final_policy_name = append_segment final_policy_name (LANGUAGE i);
          final_policy_name = append_segment final_policy_name (LICENSE i);
          final_policy_name = append_segment final_policy_name (PLATFORM i)
      in final_policy_name)"

definition self_service_policy_name_of :: "string \<Rightarrow> string \<Rightarrow> string" where
  "self_service_policy_name_of final_policy_name vers =
     final_policy_name @ '' (Testing) v'' @ vers"

subsection \<open>Untested recipes: the Jamf Content List\<close>

definition untested_content_list :: "site \<Rightarrow> string \<Rightarrow> string \<Rightarrow> string \<Rightarrow> unit prog" where
  "untested_content_list site final_policy_name vers category =
     (let criteria = [(''Self Service Content'', Eq, final_policy_name)] in
      bind_prog (check_list site ''Jamf Content List'' criteria) (\<lambda>app_in_content_list.
      block [
        if \<not> app_in_content_list
        then add_record site ''Jamf Content List'' ''Self Service Content'' final_policy_name
        else Return (),
        update_record site ''Jamf Content List'' ''Untested Version'' (Some vers) criteria,
        update_record site ''Jamf Content List'' ''Category'' (Some category) criteria,
        update_record site ''Jamf Content List'' ''Content Type'' (Some ''Application'') criteria
      ]))"

subsection \<open>Untested recipes: the Jamf Test Coordination list\<close>

definition needs_review_check :: "site \<Rightarrow> string \<Rightarrow> string \<Rightarrow> unit prog" where
  "needs_review_check site self_service_policy_name check =
     (let criteria = [(''Self Service Content Name'', Eq, self_service_policy_name),
                      (''Release Completed'', Eq, ''No''),
                      (''Status'', Eq, check)] in
      bind_prog (check_list site ''Jamf Test Coordination'' criteria)
        (\<lambda>app_in_test_coordination_tested_but_not_released.
      if app_in_test_coordination_tested_but_not_released
      then update_record site ''Jamf Test Coordination'' ''Status'' (Some ''Needs review'') criteria
      else Return ()))"

definition untested_test_coordination :: "site \<Rightarrow> string \<Rightarrow> string \<Rightarrow> bool \<Rightarrow> unit prog" where
  "untested_test_coordination site final_policy_name self_service_policy_name is_app_autostage =
     (let criteria = [(''Self Service Content Name'', Eq, self_service_policy_name),
                      (''Release Completed'', Eq, ''Yes'')] in
      bind_prog (check_list site ''Jamf Test Coordination'' criteria)
        (\<lambda>exact_policy_in_test_coordination_and_released.
      bind_prog
        (if exact_policy_in_test_coordination_and_released
         then update_record site ''Jamf Test Coordination'' ''Release Completed'' (Some ''No'') criteria
         else Return ()) (\<lambda>_.
      let criteria = [(''Self Service Content Name'', Eq, self_service_policy_name)] in
      bind_prog (check_list site ''Jamf Test Coordination'' criteria)
        (\<lambda>exact_policy_in_test_coordination.
      if exact_policy_in_test_coordination then
        (if is_app_autostage then
           (let criteria = [(''Self Service Content Name'', Eq, self_service_policy_name),
                            (''Status'', Neq, ''Autostage'')] in
            update_record site ''Jamf Test Coordination'' ''Status'' (Some ''Autostage'') criteria)
         else
           (let check_criteria = [''In progress'', ''Done'', ''Deferred'',
                                  ''Waiting for other test manager''] in
            block (map (needs_review_check site self_service_policy_name) check_criteria)))
      else
        (let criteria = [(''Final Content Name'', Eq, final_policy_name),
                         (''Release Completed'', Eq, ''No''),
                         (''Status'', Neq, ''Obsolete'')] in
         bind_prog (check_list site ''Jamf Test Coordination'' criteria)
           (\<lambda>app_in_test_coordination_not_released.
         bind_prog
           (if app_in_test_coordination_not_released
            then update_record site ''Jamf Test Coordination'' ''Status'' (Some ''Obsolete'') criteria
            else Return ()) (\<lambda>_.
         bind_prog
           (add_record site ''Jamf Test Coordination'' ''Self Service Content Name''
              self_service_policy_name) (\<lambda>_.
         let criteria = [(''Self Service Content Name'', Eq, self_service_policy_name)] in
         bind_prog
           (update_record site ''Jamf Test Coordination'' ''Final Content Name''
              (Some final_policy_name) criteria) (\<lambda>_.
         if is_app_autostage
         then update_record site ''Jamf Test Coordination'' ''Status'' (Some ''Autostage'') criteria
         else Return ())))))))))"

subsection \<open>Untested recipes: the Jamf Test Review list\<close>

definition untested_test_review ::
  "site \<Rightarrow> string \<Rightarrow> string \<Rightarrow> string option \<Rightarrow> string option \<Rightarrow> unit prog" where
  "untested_test_review site final_policy_name self_service_policy_name
       executable_command process_name =
     (let criteria = [(''Self Service Content Name'', Eq, self_service_policy_name)] in
      bind_prog (check_list site ''Jamf Test Review'' criteria) (\<lambda>exact_policy_in_test_review.
      if exact_policy_in_test_review then
        block [
          update_record site ''Jamf Test Review'' ''Release Completed TST'' (Some ''No'') criteria,
          update_record site ''Jamf Test Review'' ''Release Completed PRD'' (Some ''No'') criteria,
          update_record site ''Jamf Test Review'' ''Ready for Production'' (Some ''No'') criteria,
          update_record site ''Jamf Test Review'' ''Executable_Command'' executable_command criteria,
          update_record site ''Jamf Test Review'' ''Process_Name'' process_name criteria
        ]
      else
        (let criteria = [(''Final Content Name'', Eq, final_policy_name),
                         (''Release Completed TST'', Eq, ''No'')] in
         bind_prog (check_list site ''Jamf Test Review'' criteria)
           (\<lambda>app_in_test_review_not_released.
         bind_prog
           (if app_in_test_review_not_released
            then delete_record site ''Jamf Test Review'' criteria
            else
              (let criteria = [(''Final Content Name'', Eq, final_policy_name),
                               (''Release Completed PRD'', Eq, ''No'')] in
               bind_prog (check_list site ''Jamf Test Review'' criteria)
                 (\<lambda>app_in_test_review_not_released_to_prd.
               if app_in_test_review_not_released_to_prd
               then update_record site ''Jamf Test Review'' ''Release Completed PRD''
                      (Some ''Skipped'') criteria
               else Return ()))) (\<lambda>_.
         bind_prog
           (add_record site ''Jamf Test Review'' ''Self Service Content Name''
              self_service_policy_name) (\<lambda>_.
         let criteria = [(''Self Service Content Name'', Eq, self_service_policy_name)] in
         block [
           update_record site ''Jamf Test Review'' ''Final Content Name''
             (Some final_policy_name) criteria,
           update_record site ''Jamf Test Review'' ''Executable_Command'' executable_command criteria,
           update_record site ''Jamf Test Review'' ''Process_Name'' process_name criteria
         ]))))))"

subsection \<open>The section for untested recipes\<close>

definition untested :: "inputs \<Rightarrow> unit prog" where
  "untested i =
     (let final_policy_name = untested_final_policy_name i;
          self_service_policy_name = self_service_policy_name_of final_policy_name (version i) in
      bind_prog (connect_sharepoint (SP_URL i) (SP_USER i) (SP_PASS i)) (\<lambda>site.
      bind_prog (untested_content_list site final_policy_name (version i) (PKG_CATEGORY i)) (\<lambda>_.
      let criteria = [(''Self Service Content'', Eq, final_policy_name),
                      (''Autostage'', Eq, ''Yes'')] in
      bind_prog (check_list site ''Jamf Content List'' criteria) (\<lambda>is_app_autostage.
      bind_prog
        (untested_test_coordination site final_policy_name self_service_policy_name
           is_app_autostage) (\<lambda>_.
      untested_test_review site final_policy_name self_service_policy_name
        (SP_EXECUTABLE_COMMAND i) (SP_PROCESS_NAME i))))))"

subsection \<open>The section for prod recipes\<close>

definition prod_test_coordination :: "site \<Rightarrow> string \<Rightarrow> string \<Rightarrow> string \<Rightarrow> unit prog" where
  "prod_test_coordination site final_policy_name self_service_policy_name jss_url =
     (let criteria = [(''Self Service Content Name'', Eq, self_service_policy_name)] in
      bind_prog (check_list site ''Jamf Test Coordination'' criteria)
        (\<lambda>exact_policy_in_test_coordination.
      bind_prog
        (if exact_policy_in_test_coordination then Return ()
         else block [
           add_record site ''Jamf Test Coordination'' ''Self Service Content Name''
             self_service_policy_name,
           update_record site ''Jamf Test Coordination'' ''Final Content Name''
             (Some final_policy_name) criteria
         ]) (\<lambda>_.
      if py_in ''prd'' jss_url then
        (let autostage_criteria = [(''Self Service Content'', Eq, final_policy_name),
                                   (''Autostage'', Eq, ''Yes'')] in
         bind_prog (check_list site ''Jamf Content List'' autostage_criteria)
           (\<lambda>is_app_autostage.
         block [
           update_record site ''Jamf Test Coordination'' ''Release Completed'' (Some ''Yes'') criteria,
           if is_app_autostage
           then update_record site ''Jamf Test Coordination'' ''Status'' (Some ''Autostage'') criteria
           else update_record site ''Jamf Test Coordination'' ''Status'' (Some ''Done'') criteria
         ]))
      else Return ())))"

definition prod_test_review :: "site \<Rightarrow> string \<Rightarrow> string \<Rightarrow> string \<Rightarrow> unit prog" where
  "prod_test_review site final_policy_name self_service_policy_name jss_url =
     (let criteria = [(''Self Service Content Name'', Eq, self_service_policy_name)] in
      bind_prog (check_list site ''Jamf Test Review'' criteria) (\<lambda>exact_policy_in_test_review.
      bind_prog
        (if exact_policy_in_test_review then Return ()
         else block [
           add_record site ''Jamf Test Review'' ''Self Service Content Name''
             self_service_policy_name,
           update_record site ''Jamf Test Review'' ''Final Content Name''
             (Some final_policy_name) criteria
         ]) (\<lambda>_.
      if py_in ''tst'' jss_url then
        block [
          update_record site ''Jamf Test Review'' ''Release Completed TST'' (Some ''Yes'') criteria,
          update_record site ''Jamf Test Review'' ''Ready for Production'' (Some ''Yes'') criteria
        ]
      else if py_in ''prd'' jss_url then
        update_record site ''Jamf Test Review'' ''Release Completed PRD'' (Some ''Yes'') criteria
      else Return ())))"

definition prod_content_list ::
  "site \<Rightarrow> string \<Rightarrow> string \<Rightarrow> string \<Rightarrow> string \<Rightarrow> string \<Rightarrow> unit prog" where
  "prod_content_list site final_policy_name self_service_policy_name vers jss_url sp_url =
     (if py_in ''prd'' jss_url then
        (let criteria = [(''Self Service Content'', Eq, final_policy_name)] in
         bind_prog (check_list site ''Jamf Content List'' criteria) (\<lambda>app_in_content_list.
         block [
           if \<not> app_in_content_list
           then add_record site ''Jamf Content List'' ''Self Service Content'' final_policy_name
           else Return (),
           update_record site ''Jamf Content List'' ''Untested Version'' (Some []) criteria,
           update_record site ''Jamf Content List'' ''Prod. Version'' (Some vers) criteria,
           update_record site ''Jamf Content List'' ''Test Report''
             (Some (test_report_url sp_url self_service_policy_name @ '', Test Report'')) criteria
         ]))
      else Return ())"

definition prod :: "inputs \<Rightarrow> string \<Rightarrow> unit prog" where
  "prod i final_policy_name =
     (let self_service_policy_name = self_service_policy_name_of final_policy_name (version i) in
      bind_prog (connect_sharepoint (SP_URL i) (SP_USER i) (SP_PASS i)) (\<lambda>site.
      block [
        prod_test_coordination site final_policy_name self_service_policy_name (JSS_URL i),
        prod_test_review site final_policy_name self_service_policy_name (JSS_URL i),
        prod_content_list site final_policy_name self_service_policy_name (version i)
          (JSS_URL i) (SP_URL i)
      ]))"

subsection \<open>main\<close>

text \<open>\<open>if not final_policy_name\<close> holds for \<open>None\<close> and for the empty string.\<close>

definition main :: "inputs \<Rightarrow> unit prog" where
  "main i =
     (case SELFSERVICE_POLICY_NAME i of
        None \<Rightarrow> if py_in ''prd'' (JSS_URL i) then untested i else Return ()
      | Some final_policy_name \<Rightarrow>
          if final_policy_name = []
          then (if py_in ''prd'' (JSS_URL i) then untested i else Return ())
          else prod i final_policy_name)"

section \<open>The processor's life cycle\<close>

text \<open>The table \<open>input_variables\<close>: the name, \<open>required\<close> and the default, if any.\<close>

definition input_variables :: "(string \<times> bool \<times> string option) list" where
  "input_variables =
     [(''JSS_URL'', True, None),
      (''SP_URL'', True, None),
      (''SP_USER'', True, None),
      (''SP_PASS'', True, None),
      (''POLICY_CATEGORY'', False, Some ''Untested''),
      (''PKG_CATEGORY'', True, None),
      (''LANGUAGE'', False, None),
      (''LICENSE'', False, None),
      (''MAJOR_VERSION'', False, None),
      (''PLATFORM'', False, None),
      (''NAME'', True, None),
      (''SELFSERVICE_POLICY_NAME'', False, None),
      (''version'', True, None)]"

type_synonym env = "string \<rightharpoonup> string"

text \<open>
  Modelled from the spec: the enclosing plugin life cycle (the base class \<open>Processor\<close>
  of autopkglib, which is not part of the repository). Before it enters \<open>main\<close> it walks
  the declared input variables, gives a variable that is not in the environment its
  default, and raises when a required variable is not in the environment.
\<close>

fun check_input_variables :: "(string \<times> bool \<times> string option) list \<Rightarrow> env \<Rightarrow> error + env" where
  "check_input_variables [] env = Inr env"
| "check_input_variables ((variable, required, dflt) # rest) env =
     (let env = (case dflt of
                   None \<Rightarrow> env
                 | Some d \<Rightarrow> if env variable = None then env(variable \<mapsto> d) else env)
      in if required \<and> env variable = None
         then Inl (ProcessorError (''JamfUploadSharepointUpdater requires '' @ variable))
         else check_input_variables rest env)"

text \<open>The calls of \<open>self.env.get\<close> at the head of \<open>main\<close>.\<close>

definition read_inputs :: "env \<Rightarrow> inputs option" where
  "read_inputs env =
     (case env ''POLICY_CATEGORY'' of None \<Rightarrow> None | Some policy_category \<Rightarrow>
      case env ''PKG_CATEGORY'' of None \<Rightarrow> None | Some category \<Rightarrow>
      case env ''version'' of None \<Rightarrow> None | Some vers \<Rightarrow>
      case env ''NAME'' of None \<Rightarrow> None | Some name \<Rightarrow>
      case env ''JSS_URL'' of None \<Rightarrow> None | Some jss_url \<Rightarrow>
      case env ''SP_URL'' of None \<Rightarrow> None | Some sp_url \<Rightarrow>
      case env ''SP_USER'' of None \<Rightarrow> None | Some sp_user \<Rightarrow>
      case env ''SP_PASS'' of None \<Rightarrow> None | Some sp_pass \<Rightarrow>
      Some \<lparr>POLICY_CATEGORY = policy_category,
            PKG_CATEGORY = category,
            version = vers,
            NAME = name,
            SELFSERVICE_POLICY_NAME = env ''SELFSERVICE_POLICY_NAME'',
            LANGUAGE = env ''LANGUAGE'',
            LICENSE = env ''LICENSE'',
            MAJOR_VERSION = env ''MAJOR_VERSION'',
            PLATFORM = env ''PLATFORM'',
            SP_EXECUTABLE_COMMAND = env ''SP_EXECUTABLE_COMMAND'',
            SP_PROCESS_NAME = env ''SP_PROCESS_NAME'',
            JSS_URL = jss_url,
            SP_URL = sp_url,
            SP_USER = sp_user,
            SP_PASS = sp_pass\<rparr>)"

definition process :: "env \<Rightarrow> unit prog" where
  "process env =
     (case check_input_variables input_variables env of
        Inl e \<Rightarrow> Raise e
      | Inr env \<Rightarrow>
          (case read_inputs env of
             None \<Rightarrow> Raise (ProcessorError ''JamfUploadSharepointUpdater requires an input'')
           | Some i \<Rightarrow> main i))"

section \<open>Running a program against the site\<close>

text \<open>
  The world is the state of the lists and the record of the calls that the site has
  answered. \<open>fails\<close> decides, from the calls answered so far and the next call, whether
  the next call raises. A call that raises is not recorded and changes nothing.
\<close>

record world =
  site_lists :: site_state
  calls :: "call list"

datatype 'a outcome = Done 'a world | Raised error world

fun world_of :: "'a outcome \<Rightarrow> world" where
  "world_of (Done x w) = w"
| "world_of (Raised e w) = w"

fun completes :: "'a outcome \<Rightarrow> bool" where
  "completes (Done x w) = True"
| "completes (Raised e w) = False"

type_synonym faults = "call list \<Rightarrow> call \<Rightarrow> bool"

definition no_faults :: faults where
  "no_faults cs c = False"

primrec exec :: "faults \<Rightarrow> 'a prog \<Rightarrow> world \<Rightarrow> 'a outcome" where
  "exec fails (Return x) w = Done x w"
| "exec fails (Raise e) w = Raised e w"
| "exec fails (Remote c k) w =
     (if fails (calls w) c then Raised (RemoteFailure c) w
      else case respond c (site_lists w) of
             None \<Rightarrow> Raised (RemoteFailure c) w
           | Some (reply, s) \<Rightarrow> exec fails (k reply) \<lparr>site_lists = s, calls = calls w @ [c]\<rparr>)"

text \<open>The same run without faults and without the record of calls.\<close>

primrec run :: "'a prog \<Rightarrow> site_state \<Rightarrow> (error + 'a) \<times> site_state" where
  "run (Return x) s = (Inr x, s)"
| "run (Raise e) s = (Inl e, s)"
| "run (Remote c k) s =
     (case respond c s of
        None \<Rightarrow> (Inl (RemoteFailure c), s)
      | Some (reply, s') \<Rightarrow> run (k reply) s')"

subsection \<open>A site that can refuse a write\<close>










section \<open>Notions used in the statements\<close>

text \<open>An item meets a criteria dictionary when it meets every entry of it.\<close>

definition sat :: "criteria \<Rightarrow> cols \<Rightarrow> bool" where
  "sat criteria item = list_all (\<lambda>(key, operand, val). holds operand (item key) val) criteria"

text \<open>
  The policy namer as the specification words it: the name, then every segment that is
  supplied and not empty, in the order given, each after a single space.
\<close>

fun supplied :: "string option list \<Rightarrow> string list" where
  "supplied [] = []"
| "supplied (None # segments) = supplied segments"
| "supplied (Some s # segments) = (if s = [] then supplied segments else s # supplied segments)"

definition policy_namer :: "string \<Rightarrow> string option list \<Rightarrow> string" where
  "policy_namer name segments = name @ concat (map (\<lambda>s. '' '' @ s) (supplied segments))"

text \<open>
  What the methods do to a list, said without the calls: whether an item meets the
  criteria, every item that meets them with one column set, and the list without them.
\<close>

definition exists_in :: "sp_list \<Rightarrow> criteria \<Rightarrow> bool" where
  "exists_in l criteria =
     list_ex (\<lambda>x. case x of None \<Rightarrow> False | Some item \<Rightarrow> sat criteria item) (items l)"

definition set_where :: "criteria \<Rightarrow> string \<Rightarrow> string option \<Rightarrow> sp_list \<Rightarrow> sp_list" where
  "set_where criteria key val l =
     l\<lparr>items := map (map_option (\<lambda>item. if sat criteria item then item(key \<mapsto> text_of val)
                                             else item))
                    (items l)\<rparr>"

definition delete_where :: "criteria \<Rightarrow> sp_list \<Rightarrow> sp_list" where
  "delete_where criteria l =
     l\<lparr>items := map (\<lambda>x. case x of None \<Rightarrow> None
                           | Some item \<Rightarrow> if sat criteria item then None else Some item)
                    (items l)\<rparr>"

text \<open>
  What each part of the section for untested recipes does to its list. That the parts do
  this is proved below (\<open>run_untested_content_list\<close>, \<open>run_untested_test_coordination\<close>,
  \<open>run_untested_test_review\<close>).
\<close>

definition content_list_untested :: "string \<Rightarrow> string \<Rightarrow> string \<Rightarrow> sp_list \<Rightarrow> sp_list" where
  "content_list_untested fpn vers category l =
     (let c = [(''Self Service Content'', Eq, fpn)];
          l = (if exists_in l c then l else apply_batch (New ''Self Service Content'' fpn) l);
          l = set_where c ''Untested Version'' (Some vers) l;
          l = set_where c ''Category'' (Some category) l
      in set_where c ''Content Type'' (Some ''Application'') l)"

definition test_coordination_untested :: "string \<Rightarrow> string \<Rightarrow> bool \<Rightarrow> sp_list \<Rightarrow> sp_list" where
  "test_coordination_untested fpn sspn autostage l =
     (let l = set_where [(''Self Service Content Name'', Eq, sspn), (''Release Completed'', Eq, ''Yes'')]
                ''Release Completed'' (Some ''No'') l;
          c = [(''Self Service Content Name'', Eq, sspn)]
      in if exists_in l c then
           (if autostage
            then set_where [(''Self Service Content Name'', Eq, sspn), (''Status'', Neq, ''Autostage'')]
                   ''Status'' (Some ''Autostage'') l
            else fold (\<lambda>check. set_where [(''Self Service Content Name'', Eq, sspn),
                                           (''Release Completed'', Eq, ''No''),
                                           (''Status'', Eq, check)]
                                  ''Status'' (Some ''Needs review''))
                   [''In progress'', ''Done'', ''Deferred'', ''Waiting for other test manager''] l)
         else
           (let l = set_where [(''Final Content Name'', Eq, fpn), (''Release Completed'', Eq, ''No''),
                               (''Status'', Neq, ''Obsolete'')] ''Status'' (Some ''Obsolete'') l;
                l = apply_batch (New ''Self Service Content Name'' sspn) l;
                l = set_where c ''Final Content Name'' (Some fpn) l
            in if autostage then set_where c ''Status'' (Some ''Autostage'') l else l))"

definition test_review_untested ::
  "string \<Rightarrow> string \<Rightarrow> string option \<Rightarrow> string option \<Rightarrow> sp_list \<Rightarrow> sp_list" where
  "test_review_untested fpn sspn executable_command process_name l =
     (let c = [(''Self Service Content Name'', Eq, sspn)]
      in if exists_in l c then
           (let l = set_where c ''Release Completed TST'' (Some ''No'') l;
                l = set_where c ''Release Completed PRD'' (Some ''No'') l;
                l = set_where c ''Ready for Production'' (Some ''No'') l;
                l = set_where c ''Executable_Command'' executable_command l
            in set_where c ''Process_Name'' process_name l)
         else
           (let ct = [(''Final Content Name'', Eq, fpn), (''Release Completed TST'', Eq, ''No'')];
                cp = [(''Final Content Name'', Eq, fpn), (''Release Completed PRD'', Eq, ''No'')];
                l = (if exists_in l ct then delete_where ct l
                     else set_where cp ''Release Completed PRD'' (Some ''Skipped'') l);
                l = apply_batch (New ''Self Service Content Name'' sspn) l;
                l = set_where c ''Final Content Name'' (Some fpn) l;
                l = set_where c ''Executable_Command'' executable_command l
            in set_where c ''Process_Name'' process_name l))"

text \<open>Inputs and sites for the examples.\<close>

definition example_inputs :: inputs where
  "example_inputs =
     \<lparr>POLICY_CATEGORY = ''Untested'', PKG_CATEGORY = ''Apps'', version = ''1.0'',
      NAME = ''Foo'', SELFSERVICE_POLICY_NAME = None, LANGUAGE = None, LICENSE = None,
      MAJOR_VERSION = None, PLATFORM = None, SP_EXECUTABLE_COMMAND = None,
      SP_PROCESS_NAME = None, JSS_URL = ''https://jss.prd.example.com'',
      SP_URL = ''https://sp.example.com'', SP_USER = ''user'', SP_PASS = ''pass''\<rparr>"

definition empty_site :: site_state where
  "empty_site listname = \<lparr>items = [], new_item = Map.empty\<rparr>"

definition autostage_site :: site_state where
  "autostage_site =
     empty_site(''Jamf Content List'' :=
       \<lparr>items = [Some [''Self Service Content'' \<mapsto> ''Foo'', ''Autostage'' \<mapsto> ''Yes'']],
        new_item = Map.empty\<rparr>)"

definition review_site :: site_state where
  "review_site =
     empty_site(''Jamf Test Review'' :=
       \<lparr>items = [Some [''Self Service Content Name'' \<mapsto> ''Foo (Testing) v1.0'',
                         ''Final Content Name'' \<mapsto> ''Foo'',
                         ''Release Completed TST'' \<mapsto> ''No'',
                         ''Release Completed PRD'' \<mapsto> ''No'']],
        new_item = Map.empty\<rparr>)"



text \<open>
  A call keys Jamf Test Coordination and Jamf Test Review by a name when, on these two
  lists, every comparison of a query with the column Self Service Content Name compares
  with the name, and every new item is created with the name in this column.
\<close>

fun keyed_by :: "string \<Rightarrow> call \<Rightarrow> bool" where
  "keyed_by name (GetListItems_call listname flds query) =
     (listname = ''Jamf Test Coordination'' \<or> listname = ''Jamf Test Review'' \<longrightarrow>
        list_all (\<lambda>q. case q of
                         Cond operand key val \<Rightarrow>
                           key = ''Self Service Content Name'' \<longrightarrow> val = name
                       | And_word \<Rightarrow> True) query)"
| "keyed_by name (UpdateListItems_call listname (New key val)) =
     (listname = ''Jamf Test Coordination'' \<or> listname = ''Jamf Test Review'' \<longrightarrow>
        key = ''Self Service Content Name'' \<and> val = name)"
| "keyed_by name c = True"





text \<open>
  The final policy name of a run: the one supplied, or else the one that the section for
  untested recipes computes.
\<close>

definition final_policy_name_of :: "inputs \<Rightarrow> string" where
  "final_policy_name_of i =
     (case SELFSERVICE_POLICY_NAME i of
        None \<Rightarrow> untested_final_policy_name i
      | Some final_policy_name \<Rightarrow>
          if final_policy_name = [] then untested_final_policy_name i else final_policy_name)"

section \<open>The query builder builds a conjunction\<close>

lemma text_of_simps [simp]: "text_of (Some v) = v" "text_of None = ''None''"
  by (simp_all add: text_of_def)

lemma build_query_loop_False:
  "build_query_loop cs (q, f, False) =
     (q @ concat (map (\<lambda>(key, operand, val). [Cond operand key val, And_word]) cs),
      f @ map fst cs, False)"
  by (induction cs arbitrary: q f) auto

lemma build_query_Cons:
  "build_query ((key, operand, val) # cs) =
     (''ID'' # key # map fst cs,
      rev (concat (map (\<lambda>(key, operand, val). [Cond operand key val, And_word]) cs))
        @ [Cond operand key val])"
  by (simp add: build_query_def build_query_loop_False)

lemma rev_concat_pairs:
  "rev (concat (map (\<lambda>(key, operand, val). [Cond operand key val, And_word]) cs)) =
     concat (map (\<lambda>(key, operand, val). [And_word, Cond operand key val]) (rev cs))"
  by (induction cs) auto

text \<open>
  The reversed list nests into a chain of \<open>And\<close> elements, each with a comparison and
  the rest of the chain as its two operands.
\<close>

lemma nest_chain:
  "\<exists>t. nest (concat (map (\<lambda>(key, operand, val). [And_word, Cond operand key val]) ds)
                @ [Cond operand0 key0 val0]) = [t]
       \<and> caml_eval t item = Some (holds operand0 (item key0) val0 \<and> sat ds item)"
proof (induction ds)
  case Nil
  then show ?case by (simp add: sat_def)
next
  case (Cons d ds)
  obtain key operand val where d: "d = (key, operand, val)" by (cases d) auto
  from Cons obtain t where
    t: "nest (concat (map (\<lambda>(key, operand, val). [And_word, Cond operand key val]) ds)
              @ [Cond operand0 key0 val0]) = [t]" and
    ev: "caml_eval t item = Some (holds operand0 (item key0) val0 \<and> sat ds item)"
    by blast
  show ?case using t ev by (auto simp: d sat_def)
qed

lemma where_eval_build_query:
  assumes "criteria \<noteq> []"
  shows "where_eval (snd (build_query criteria)) item = Some (sat criteria item)"
proof -
  obtain key operand val cs where c: "criteria = (key, operand, val) # cs"
    using assms by (cases criteria) auto
  obtain t where
    t: "nest (concat (map (\<lambda>(key, operand, val). [And_word, Cond operand key val]) (rev cs))
              @ [Cond operand key val]) = [t]" and
    ev: "caml_eval t item = Some (holds operand (item key) val \<and> sat (rev cs) item)"
    using nest_chain by blast
  have "sat (rev cs) item = sat cs item" by (simp add: sat_def)
  then show ?thesis using t ev
    by (auto simp: c build_query_Cons rev_concat_pairs where_eval_def sat_def)
qed

lemma fst_build_query: "fst (build_query criteria) = ''ID'' # map fst criteria"
proof (cases criteria)
  case Nil
  then show ?thesis by (simp add: build_query_def)
next
  case (Cons c cs)
  then show ?thesis by (cases c) (simp add: build_query_Cons)
qed

text \<open>
  Claim C7. For a criteria dictionary that is not empty, the query that \<open>build_query\<close>
  returns, read as the site reads it, is true of an item that meets every entry and false
  of an item that fails an entry, whatever the number of entries; and the list of fields
  that \<open>build_query\<close> returns holds \<open>ID\<close>.
\<close>

theorem build_query_strict_conjunction:
  assumes "criteria \<noteq> []"
  shows "((\<forall>(key, operand, val) \<in> set criteria. holds operand (item key) val) \<longrightarrow>
            where_eval (snd (build_query criteria)) item = Some True)
       \<and> ((\<exists>(key, operand, val) \<in> set criteria. \<not> holds operand (item key) val) \<longrightarrow>
            where_eval (snd (build_query criteria)) item = Some False)
       \<and> ''ID'' \<in> set (fst (build_query criteria))"
proof -
  have "sat criteria item = (\<forall>(key, operand, val) \<in> set criteria. holds operand (item key) val)"
    by (auto simp: sat_def list_all_iff)
  then show ?thesis
    using where_eval_build_query [OF assms, of item] by (auto simp: fst_build_query)
qed

theorem build_query_strict_conjunction_witness:
  "where_eval
     (snd (build_query [(''Title'', Eq, ''Good Title''), (''Status'', Neq, ''Obsolete''),
                        (''My Other Column'', Eq, ''Nice Value'')]))
     [''Title'' \<mapsto> ''Good Title'', ''My Other Column'' \<mapsto> ''Nice Value''] = Some True
   \<and> where_eval
     (snd (build_query [(''Title'', Eq, ''Good Title''), (''Status'', Neq, ''Obsolete''),
                        (''My Other Column'', Eq, ''Nice Value'')]))
     [''Title'' \<mapsto> ''Good Title'', ''Status'' \<mapsto> ''Obsolete'',
      ''My Other Column'' \<mapsto> ''Nice Value''] = Some False
   \<and> ''ID'' \<in> set (fst (build_query [(''Title'', Eq, ''Good Title''),
        (''Status'', Neq, ''Obsolete''), (''My Other Column'', Eq, ''Nice Value'')]))"
  using build_query_strict_conjunction
          [of "[(''Title'', Eq, ''Good Title''), (''Status'', Neq, ''Obsolete''),
                (''My Other Column'', Eq, ''Nice Value'')]"
              "[''Title'' \<mapsto> ''Good Title'', ''My Other Column'' \<mapsto> ''Nice Value'']"]
        build_query_strict_conjunction
          [of "[(''Title'', Eq, ''Good Title''), (''Status'', Neq, ''Obsolete''),
                (''My Other Column'', Eq, ''Nice Value'')]"
              "[''Title'' \<mapsto> ''Good Title'', ''Status'' \<mapsto> ''Obsolete'',
                ''My Other Column'' \<mapsto> ''Nice Value'']"]
  by simp

section \<open>The final policy name\<close>

text \<open>
  Claim C5. The final policy name that the section for untested recipes computes is the
  product name followed by those of major version, language, license and platform that
  are supplied and not empty, in this order, each after a single space. The computation
  is a total function: no input makes it raise.
\<close>

theorem final_policy_name_segments:
  "untested_final_policy_name i =
     policy_namer (NAME i) [MAJOR_VERSION i, LANGUAGE i, LICENSE i, PLATFORM i]"
  by (simp add: untested_final_policy_name_def policy_namer_def append_segment_def Let_def
           split: option.splits)

section \<open>Runs that call nothing\<close>

text \<open>
  Claim C10. When no final policy name is supplied and the JSS URL does not contain
  \<open>prd\<close>, \<open>main\<close> returns at once: whatever the faults, the run completes, the site has
  answered no call and the lists are as they were.
\<close>

theorem no_call_outside_prd:
  assumes "SELFSERVICE_POLICY_NAME i = None \<or> SELFSERVICE_POLICY_NAME i = Some []"
      and "\<not> py_in ''prd'' (JSS_URL i)"
  shows "exec fails (main i) w = Done () w"
  using assms by (auto simp: main_def)

theorem no_call_outside_prd_witness:
  "exec (\<lambda>cs c. True)
     (main \<lparr>POLICY_CATEGORY = ''Untested'', PKG_CATEGORY = ''Apps'', version = ''1.0'',
            NAME = ''Foo'', SELFSERVICE_POLICY_NAME = None, LANGUAGE = None, LICENSE = None,
            MAJOR_VERSION = None, PLATFORM = None, SP_EXECUTABLE_COMMAND = None,
            SP_PROCESS_NAME = None, JSS_URL = ''https://tst.example.com'',
            SP_URL = ''https://sp.example.com'', SP_USER = ''user'', SP_PASS = ''pass''\<rparr>)
     \<lparr>site_lists = (\<lambda>listname. \<lparr>items = [], new_item = Map.empty\<rparr>), calls = []\<rparr>
   = Done () \<lparr>site_lists = (\<lambda>listname. \<lparr>items = [], new_item = Map.empty\<rparr>), calls = []\<rparr>"
  using no_call_outside_prd
          [of "\<lparr>POLICY_CATEGORY = ''Untested'', PKG_CATEGORY = ''Apps'', version = ''1.0'',
            NAME = ''Foo'', SELFSERVICE_POLICY_NAME = None, LANGUAGE = None, LICENSE = None,
            MAJOR_VERSION = None, PLATFORM = None, SP_EXECUTABLE_COMMAND = None,
            SP_PROCESS_NAME = None, JSS_URL = ''https://tst.example.com'',
            SP_URL = ''https://sp.example.com'', SP_USER = ''user'', SP_PASS = ''pass''\<rparr>"
              "\<lambda>cs c. True"]
  by simp

section \<open>A required input that is missing\<close>

lemma check_input_variables_missing:
  assumes "distinct (map fst vs)" and "(variable, True, None) \<in> set vs" and "env variable = None"
  shows "\<exists>msg. check_input_variables vs env = Inl (ProcessorError msg)"
  using assms
proof (induction vs arbitrary: env)
  case Nil
  then show ?case by simp
next
  case (Cons v vs)
  obtain v0 r0 d0 where v: "v = (v0, r0, d0)" by (cases v) auto
  show ?case
  proof (cases "(variable, True, None) = v")
    case True
    then show ?thesis using Cons.prems by (auto simp: v)
  next
    case False
    then have mem: "(variable, True, None) \<in> set vs" using Cons.prems by auto
    then have "variable \<in> fst ` set vs" by force
    then have ne: "variable \<noteq> v0" using Cons.prems(1) by (auto simp: v)
    have d: "distinct (map fst vs)" using Cons.prems(1) by simp
    show ?thesis
      using Cons.IH [OF d mem] Cons.prems(3) ne
      by (auto simp: v Let_def split: option.splits)
  qed
qed

text \<open>
  Claim C8. When an input that the processor declares as required is not in the
  environment, the run raises before \<open>main\<close> is entered: no call is made and the lists are
  as they were. The error is the life cycle's \<open>ProcessorError\<close>, which is what the
  specification calls a configuration error.
\<close>

theorem missing_input_raises_before_any_call:
  assumes "(variable, True, dflt) \<in> set input_variables" and "env variable = None"
  shows "\<exists>msg. exec fails (process env) w = Raised (ProcessorError msg) w"
proof -
  have "dflt = None" using assms(1) by (auto simp: input_variables_def)
  moreover have "distinct (map fst input_variables)" by (simp add: input_variables_def)
  ultimately obtain msg where
    "check_input_variables input_variables env = Inl (ProcessorError msg)"
    using check_input_variables_missing assms by blast
  then show ?thesis by (simp add: process_def)
qed

theorem missing_input_raises_before_any_call_witness:
  "\<exists>msg. exec no_faults
     (process [''JSS_URL'' \<mapsto> ''https://prd.example.com'',
               ''SP_URL'' \<mapsto> ''https://sp.example.com'',
               ''SP_USER'' \<mapsto> ''user'', ''SP_PASS'' \<mapsto> ''pass'', ''NAME'' \<mapsto> ''Foo'',
               ''version'' \<mapsto> ''1.0''])
     \<lparr>site_lists = (\<lambda>listname. \<lparr>items = [], new_item = Map.empty\<rparr>), calls = []\<rparr>
   = Raised (ProcessorError msg)
       \<lparr>site_lists = (\<lambda>listname. \<lparr>items = [], new_item = Map.empty\<rparr>), calls = []\<rparr>"
  using missing_input_raises_before_any_call
          [of "''PKG_CATEGORY''" None
              "[''JSS_URL'' \<mapsto> ''https://prd.example.com'',
                ''SP_URL'' \<mapsto> ''https://sp.example.com'',
                ''SP_USER'' \<mapsto> ''user'', ''SP_PASS'' \<mapsto> ''pass'', ''NAME'' \<mapsto> ''Foo'',
                ''version'' \<mapsto> ''1.0'']" no_faults]
  by (simp add: input_variables_def)

section \<open>What the methods do to the lists\<close>

lemma run_bind:
  "run (bind_prog m f) s =
     (case run m s of (Inl e, s') \<Rightarrow> (Inl e, s') | (Inr x, s') \<Rightarrow> run (f x) s')"
  by (induction m arbitrary: s) (auto split: option.splits)

lemma run_block_Cons:
  "run (block (stmt # stmts)) s =
     (case run stmt s of (Inl e, s') \<Rightarrow> (Inl e, s') | (Inr x, s') \<Rightarrow> run (block stmts) s')"
  by (simp add: run_bind)

lemma selected_sat:
  assumes "criteria \<noteq> []" and "i < length (items l)"
  shows "selected l (snd (build_query criteria)) i =
           (case items l ! i of None \<Rightarrow> False | Some item \<Rightarrow> sat criteria item)"
  using assms by (simp add: selected_def where_eval_build_query split: option.splits)

lemma list_rows_build_query:
  assumes "criteria \<noteq> []"
  shows "list_rows l (snd (build_query criteria)) =
           Some (map Row (filter (selected l (snd (build_query criteria))) [0..<length (items l)]))"
  using assms by (simp add: list_rows_def where_eval_build_query)

lemma exists_in_selected:
  assumes "criteria \<noteq> []"
  shows "exists_in l criteria = (\<exists>i<length (items l). selected l (snd (build_query criteria)) i)"
proof
  assume "exists_in l criteria"
  then obtain x where "x \<in> set (items l)" and x: "case x of None \<Rightarrow> False | Some item \<Rightarrow> sat criteria item"
    by (auto simp: exists_in_def list_ex_iff)
  then obtain i where "i < length (items l)" and "items l ! i = x"
    by (auto simp: in_set_conv_nth)
  then show "\<exists>i<length (items l). selected l (snd (build_query criteria)) i"
    using x selected_sat [OF assms] by auto
next
  assume "\<exists>i<length (items l). selected l (snd (build_query criteria)) i"
  then obtain i where i: "i < length (items l)" and "selected l (snd (build_query criteria)) i"
    by blast
  then have "case items l ! i of None \<Rightarrow> False | Some item \<Rightarrow> sat criteria item"
    using selected_sat [OF assms] by simp
  moreover have "items l ! i \<in> set (items l)" using i by simp
  ultimately show "exists_in l criteria"
    unfolding exists_in_def list_ex_iff by blast
qed

lemma run_check_list:
  assumes "criteria \<noteq> []"
  shows "run (check_list site listname criteria) s = (Inr (exists_in (s listname) criteria), s)"
proof -
  have "(filter (selected (s listname) (snd (build_query criteria))) [0..<length (items (s listname))] \<noteq> [])
          = exists_in (s listname) criteria"
    by (auto simp: filter_empty_conv exists_in_selected [OF assms])
  then show ?thesis
    using assms
    by (simp add: check_list_def site_List_def GetListItems_def list_rows_build_query
             case_prod_beta)
qed

lemma run_add_record:
  "run (add_record site listname key val) s =
     (Inr (), s(listname := apply_batch (New key val) (s listname)))"
  by (simp add: add_record_def site_List_def UpdateListItems_def discard_def)

lemma run_update_rows:
  "run (block (map (\<lambda>i. discard (UpdateListItems listname (Update i key val))) ids)) s =
     (Inr (), s(listname := fold (\<lambda>i. apply_batch (Update i key val)) ids (s listname)))"
  by (induction ids arbitrary: s) (simp_all add: run_bind UpdateListItems_def discard_def)


lemma fold_update:
  assumes "distinct ids"
  shows "fold (\<lambda>i. apply_batch (Update i key val)) ids l =
           l\<lparr>items := map (\<lambda>j. if j \<in> set ids
                                 then map_option (\<lambda>item. item(key \<mapsto> text_of val)) (items l ! j)
                                 else items l ! j) [0..<length (items l)]\<rparr>"
  using assms
proof (induction ids arbitrary: l)
  case Nil
  then show ?case by (simp add: map_nth)
next
  case (Cons i ids)
  then show ?case
    by (auto simp: nth_list_update intro!: nth_equalityI)
qed


lemma fold_update_selected:
  assumes "criteria \<noteq> []"
  shows "fold (\<lambda>i. apply_batch (Update i key val))
           (filter (selected l (snd (build_query criteria))) [0..<length (items l)]) l
         = set_where criteria key val l"
proof -
  let ?ids = "filter (selected l (snd (build_query criteria))) [0..<length (items l)]"
  have d: "distinct ?ids" by simp
  have "map (\<lambda>j. if j \<in> set ?ids
                   then map_option (\<lambda>item. item(key \<mapsto> text_of val)) (items l ! j)
                   else items l ! j) [0..<length (items l)]
        = map (map_option (\<lambda>item. if sat criteria item then item(key \<mapsto> text_of val) else item)) (items l)"
  proof (rule nth_equalityI)
    show "length (map (\<lambda>j. if j \<in> set ?ids
                   then map_option (\<lambda>item. item(key \<mapsto> text_of val)) (items l ! j)
                   else items l ! j) [0..<length (items l)])
          = length (map (map_option (\<lambda>item. if sat criteria item then item(key \<mapsto> text_of val) else item)) (items l))"
      by simp
  next
    fix j
    assume "j < length (map (\<lambda>j. if j \<in> set ?ids
                   then map_option (\<lambda>item. item(key \<mapsto> text_of val)) (items l ! j)
                   else items l ! j) [0..<length (items l)])"
    then have j: "j < length (items l)" by simp
    show "map (\<lambda>j. if j \<in> set ?ids
                   then map_option (\<lambda>item. item(key \<mapsto> text_of val)) (items l ! j)
                   else items l ! j) [0..<length (items l)] ! j
          = map (map_option (\<lambda>item. if sat criteria item then item(key \<mapsto> text_of val) else item)) (items l) ! j"
      using j selected_sat [OF assms j] by (cases "items l ! j") auto
  qed
  then show ?thesis
    unfolding fold_update [OF d] set_where_def by simp
qed

lemma run_update_record:
  assumes "criteria \<noteq> []"
  shows "run (update_record site listname key val criteria) s =
           (Inr (), s(listname := set_where criteria key val (s listname)))"
  using assms
  by (simp add: update_record_def site_List_def GetListItems_def list_rows_build_query
                run_update_rows fold_update_selected case_prod_beta comp_def)


lemma Delete_absorb:
  "apply_batch (Delete (delete_data @ i # ids)) (apply_batch (Delete (delete_data @ [i])) l)
     = apply_batch (Delete (delete_data @ i # ids)) l"
  by (auto intro!: nth_equalityI)

lemma run_delete_loop:
  "run (delete_loop listname (map Row ids) delete_data) s =
     (Inr (), if ids = [] then s
              else s(listname := apply_batch (Delete (delete_data @ ids)) (s listname)))"
proof (induction ids arbitrary: delete_data s)
  case Nil
  then show ?case by simp
next
  case (Cons i ids)
  show ?case
    by (cases "ids = []")
       (auto simp: run_bind UpdateListItems_def discard_def Cons.IH Delete_absorb fun_upd_def
             simp del: apply_batch.simps)
qed

lemma delete_selected:
  assumes "criteria \<noteq> []"
  shows "apply_batch (Delete (filter (selected l (snd (build_query criteria))) [0..<length (items l)])) l
         = delete_where criteria l"
proof -
  let ?ids = "filter (selected l (snd (build_query criteria))) [0..<length (items l)]"
  have "map (\<lambda>i. if i \<in> set ?ids then None else items l ! i) [0..<length (items l)]
        = map (\<lambda>x. case x of None \<Rightarrow> None
                     | Some item \<Rightarrow> if sat criteria item then None else Some item) (items l)"
  proof (rule nth_equalityI)
    show "length (map (\<lambda>i. if i \<in> set ?ids then None else items l ! i) [0..<length (items l)])
          = length (map (\<lambda>x. case x of None \<Rightarrow> None
                     | Some item \<Rightarrow> if sat criteria item then None else Some item) (items l))"
      by simp
  next
    fix j
    assume "j < length (map (\<lambda>i. if i \<in> set ?ids then None else items l ! i) [0..<length (items l)])"
    then have j: "j < length (items l)" by simp
    show "map (\<lambda>i. if i \<in> set ?ids then None else items l ! i) [0..<length (items l)] ! j
          = map (\<lambda>x. case x of None \<Rightarrow> None
                     | Some item \<Rightarrow> if sat criteria item then None else Some item) (items l) ! j"
      using j selected_sat [OF assms j] by (cases "items l ! j") auto
  qed
  then show ?thesis by (simp add: delete_where_def)
qed

lemma delete_where_none:
  assumes "criteria \<noteq> []"
      and "filter (selected l (snd (build_query criteria))) [0..<length (items l)] = []"
  shows "delete_where criteria l = l"
proof -
  have "apply_batch (Delete []) l = l"
    by (simp add: map_nth)
  then show ?thesis using delete_selected [OF assms(1), of l] assms(2) by simp
qed

lemma run_delete_record:
  assumes "criteria \<noteq> []"
  shows "run (delete_record site listname criteria) s =
           (Inr (), s(listname := delete_where criteria (s listname)))"
proof (cases "filter (selected (s listname) (snd (build_query criteria)))
                [0..<length (items (s listname))] = []")
  case True
  then show ?thesis
    using assms delete_where_none [OF assms True]
    by (simp add: delete_record_def site_List_def GetListItems_def list_rows_build_query
                  case_prod_beta)
next
  case False
  then show ?thesis
    using assms run_delete_loop [of listname
        "filter (selected (s listname) (snd (build_query criteria))) [0..<length (items (s listname))]"
        "[]" s]
    by (simp add: delete_record_def site_List_def GetListItems_def list_rows_build_query
                  case_prod_beta delete_selected del: apply_batch.simps)
qed

lemma exec_no_faults_Remote:
  "exec no_faults (Remote c k) w =
     (case respond c (site_lists w) of
        None \<Rightarrow> Raised (RemoteFailure c) w
      | Some (rows, s) \<Rightarrow> exec no_faults (k rows) \<lparr>site_lists = s, calls = calls w @ [c]\<rparr>)"
  by (simp add: no_faults_def)

lemma exec_Done_run:
  "exec fails p w = Done x w' \<Longrightarrow> run p (site_lists w) = (Inr x, site_lists w')"
proof (induction p arbitrary: w)
  case (Return y)
  then show ?case by auto
next
  case (Raise e)
  then show ?case by auto
next
  case (Remote c k)
  from Remote.prems obtain rows s1 where
    r: "respond c (site_lists w) = Some (rows, s1)" and
    k: "exec fails (k rows) \<lparr>site_lists = s1, calls = calls w @ [c]\<rparr> = Done x w'"
    by (auto split: if_splits option.splits)
  have "run (k rows) s1 = (Inr x, site_lists w')"
    using Remote.IH [OF rangeI k] by simp
  then show ?case using r by simp
qed

lemma run_exec_no_faults:
  "run p s = (Inr x, s') \<Longrightarrow>
     \<exists>cs'. exec no_faults p \<lparr>site_lists = s, calls = cs\<rparr> = Done x \<lparr>site_lists = s', calls = cs @ cs'\<rparr>"
proof (induction p arbitrary: s cs)
  case (Return x)
  then show ?case by auto
next
  case (Raise e)
  then show ?case by auto
next
  case (Remote c k)
  then obtain rows s1 where r: "respond c s = Some (rows, s1)" and k: "run (k rows) s1 = (Inr x, s')"
    by (auto split: option.splits)
  from Remote.IH [OF rangeI k, of "cs @ [c]"] obtain cs' where
    "exec no_faults (k rows) \<lparr>site_lists = s1, calls = (cs @ [c])\<rparr> = Done x \<lparr>site_lists = s', calls = (cs @ [c]) @ cs'\<rparr>"
    by auto
  then show ?case using r
    by (auto simp: exec_no_faults_Remote simp del: exec.simps intro!: exI [of _ "c # cs'"])
qed

lemmas run_methods = run_bind run_check_list run_update_record run_add_record run_delete_record

lemma run_connect_sharepoint:
  "run (connect_sharepoint url user password) s = (Inr (Site_object url), s)"
  by (simp add: connect_sharepoint_def Site_def site_truthy_def)

lemma run_prod_test_coordination:
  "run (prod_test_coordination site fpn sspn url) s =
     (Inr (),
      (let c = [(''Self Service Content Name'', Eq, sspn)];
           l0 = s ''Jamf Test Coordination'';
           l1 = (if exists_in l0 c then l0
                 else set_where c ''Final Content Name'' (Some fpn)
                        (apply_batch (New ''Self Service Content Name'' sspn) l0))
       in if py_in ''prd'' url
          then s(''Jamf Test Coordination'' :=
                 set_where c ''Status''
                   (Some (if exists_in (s ''Jamf Content List'')
                               [(''Self Service Content'', Eq, fpn), (''Autostage'', Eq, ''Yes'')]
                          then ''Autostage'' else ''Done''))
                   (set_where c ''Release Completed'' (Some ''Yes'') l1))
          else s(''Jamf Test Coordination'' := l1)))"
  by (simp add: prod_test_coordination_def run_methods Let_def del: apply_batch.simps)

lemma run_prod_test_review:
  "run (prod_test_review site fpn sspn url) s =
     (Inr (),
      (let c = [(''Self Service Content Name'', Eq, sspn)];
           l0 = s ''Jamf Test Review'';
           l1 = (if exists_in l0 c then l0
                 else set_where c ''Final Content Name'' (Some fpn)
                        (apply_batch (New ''Self Service Content Name'' sspn) l0))
       in s(''Jamf Test Review'' :=
            (if py_in ''tst'' url
             then set_where c ''Ready for Production'' (Some ''Yes'')
                    (set_where c ''Release Completed TST'' (Some ''Yes'') l1)
             else if py_in ''prd'' url
             then set_where c ''Release Completed PRD'' (Some ''Yes'') l1
             else l1))))"
  by (simp add: prod_test_review_def run_methods Let_def del: apply_batch.simps)

lemma run_prod_content_list:
  "run (prod_content_list site fpn sspn vers url sp_url) s =
     (Inr (),
      (if py_in ''prd'' url
       then (let c = [(''Self Service Content'', Eq, fpn)];
                 l0 = s ''Jamf Content List'';
                 l1 = (if exists_in l0 c then l0
                       else apply_batch (New ''Self Service Content'' fpn) l0)
             in s(''Jamf Content List'' :=
                  set_where c ''Test Report'' (Some (test_report_url sp_url sspn @ '', Test Report''))
                    (set_where c ''Prod. Version'' (Some vers)
                       (set_where c ''Untested Version'' (Some []) l1))))
       else s))"
  by (simp add: prod_content_list_def run_methods Let_def del: apply_batch.simps)


lemma sat_simps [simp]:
  "sat [] item = True"
  "sat ((key, operand, val) # criteria) item = (holds operand (item key) val \<and> sat criteria item)"
  by (simp_all add: sat_def)

lemma exists_in_iff:
  "exists_in l criteria = (\<exists>item. Some item \<in> set (items l) \<and> sat criteria item)"
  by (auto simp: exists_in_def list_ex_iff split: option.splits)

lemma items_set_where:
  "items (set_where criteria key val l) =
     map (map_option (\<lambda>item. if sat criteria item then item(key \<mapsto> text_of val) else item)) (items l)"
  by (simp add: set_where_def)

lemma new_item_set_where [simp]: "new_item (set_where criteria key val l) = new_item l"
  by (simp add: set_where_def)

lemma new_item_New [simp]: "new_item (apply_batch (New key val) l) = new_item l"
  by simp

lemma Some_in_set_where:
  "Some item \<in> set (items (set_where criteria key val l)) \<longleftrightarrow>
     (\<exists>item0. Some item0 \<in> set (items l)
        \<and> item = (if sat criteria item0 then item0(key \<mapsto> text_of val) else item0))"
proof
  assume "Some item \<in> set (items (set_where criteria key val l))"
  then obtain x where x: "x \<in> set (items l)" and
    e: "Some item = map_option (\<lambda>item. if sat criteria item then item(key \<mapsto> text_of val) else item) x"
    unfolding items_set_where set_map by blast
  from e obtain item0 where "x = Some item0" by (cases x) auto
  then show "\<exists>item0. Some item0 \<in> set (items l)
        \<and> item = (if sat criteria item0 then item0(key \<mapsto> text_of val) else item0)"
    using x e by auto
next
  assume "\<exists>item0. Some item0 \<in> set (items l)
        \<and> item = (if sat criteria item0 then item0(key \<mapsto> text_of val) else item0)"
  then obtain item0 where "Some item0 \<in> set (items l)" and
    "item = (if sat criteria item0 then item0(key \<mapsto> text_of val) else item0)" by blast
  then show "Some item \<in> set (items (set_where criteria key val l))"
    by (force simp: items_set_where image_iff)
qed

lemma Some_in_New:
  "Some item \<in> set (items (apply_batch (New key val) l)) \<longleftrightarrow>
     Some item \<in> set (items l) \<or> item = (new_item l)(key \<mapsto> val)"
  by auto

lemma prod_test_coordination_frame:
  "listname \<noteq> ''Jamf Test Coordination'' \<Longrightarrow>
     snd (run (prod_test_coordination site fpn sspn url) s) listname = s listname"
  by (simp add: run_prod_test_coordination Let_def del: apply_batch.simps)

lemma prod_test_review_frame:
  "listname \<noteq> ''Jamf Test Review'' \<Longrightarrow>
     snd (run (prod_test_review site fpn sspn url) s) listname = s listname"
  by (simp add: run_prod_test_review Let_def del: apply_batch.simps)

lemma prod_content_list_frame:
  "listname \<noteq> ''Jamf Content List'' \<Longrightarrow>
     snd (run (prod_content_list site fpn sspn vers url sp_url) s) listname = s listname"
  by (simp add: run_prod_content_list Let_def del: apply_batch.simps)

lemma run_prod:
  "run (prod i fpn) s =
     (let sspn = self_service_policy_name_of fpn (version i);
          s1 = snd (run (prod_test_coordination (Site_object (SP_URL i)) fpn sspn (JSS_URL i)) s);
          s2 = snd (run (prod_test_review (Site_object (SP_URL i)) fpn sspn (JSS_URL i)) s1);
          s3 = snd (run (prod_content_list (Site_object (SP_URL i)) fpn sspn (version i)
                           (JSS_URL i) (SP_URL i)) s2)
      in (Inr (), s3))"
  by (simp add: prod_def run_bind run_connect_sharepoint run_prod_test_coordination
        run_prod_test_review run_prod_content_list Let_def del: apply_batch.simps)

lemma prod_Test_Coordination:
  "snd (run (prod i fpn) s) ''Jamf Test Coordination'' =
     snd (run (prod_test_coordination (Site_object (SP_URL i)) fpn
                 (self_service_policy_name_of fpn (version i)) (JSS_URL i)) s)
       ''Jamf Test Coordination''"
  by (simp add: run_prod Let_def prod_test_review_frame prod_content_list_frame)

lemma prod_Test_Review:
  "snd (run (prod i fpn) s) ''Jamf Test Review'' =
     snd (run (prod_test_review (Site_object (SP_URL i)) fpn
                 (self_service_policy_name_of fpn (version i)) (JSS_URL i)) s)
       ''Jamf Test Review''"
  by (simp add: run_prod Let_def prod_test_coordination_frame prod_content_list_frame
        run_prod_test_review)

lemma prod_Content_List:
  "snd (run (prod i fpn) s) ''Jamf Content List'' =
     snd (run (prod_content_list (Site_object (SP_URL i)) fpn
                 (self_service_policy_name_of fpn (version i)) (version i)
                 (JSS_URL i) (SP_URL i)) s)
       ''Jamf Content List''"
  by (simp add: run_prod Let_def prod_test_coordination_frame prod_test_review_frame
        run_prod_content_list)

lemma main_prod:
  "SELFSERVICE_POLICY_NAME i = Some fpn \<Longrightarrow> fpn \<noteq> [] \<Longrightarrow> main i = prod i fpn"
  by (simp add: main_def)




lemma sat_upd_other:
  "key \<notin> fst ` set criteria \<Longrightarrow> sat criteria (item(key := val)) = sat criteria item"
  by (induction criteria) auto

lemma exists_in_set_where:
  assumes "key \<notin> fst ` set criteria"
  shows "exists_in (set_where criteria' key val l) criteria = exists_in l criteria"
proof -
  have "sat criteria (if sat criteria' item0 then item0(key \<mapsto> text_of val) else item0)
          = sat criteria item0" for item0
    using sat_upd_other [OF assms] by simp
  then show ?thesis
    unfolding exists_in_iff Some_in_set_where by blast
qed

lemma exists_in_New:
  "exists_in (apply_batch (New key val) l) criteria
     = (exists_in l criteria \<or> sat criteria ((new_item l)(key \<mapsto> val)))"
  unfolding exists_in_iff Some_in_New by blast

lemma set_where_sets:
  assumes "key \<notin> fst ` set criteria"
      and "Some item \<in> set (items (set_where criteria key val l))" and "sat criteria item"
  shows "item key = Some (text_of val)"
proof -
  from assms(2) obtain item0 where
    "item = (if sat criteria item0 then item0(key \<mapsto> text_of val) else item0)"
    unfolding Some_in_set_where by blast
  then show ?thesis using assms(3) sat_upd_other [OF assms(1)] by (auto split: if_splits)
qed

lemma set_where_keeps:
  assumes "key' \<noteq> key" and "key' \<notin> fst ` set criteria"
      and "\<forall>item. Some item \<in> set (items l) \<and> sat criteria item \<longrightarrow> item key = val"
      and "Some item \<in> set (items (set_where criteria' key' val' l))" and "sat criteria item"
  shows "item key = val"
proof -
  from assms(4) obtain item0 where i0: "Some item0 \<in> set (items l)" and
    e: "item = (if sat criteria' item0 then item0(key' \<mapsto> text_of val') else item0)"
    unfolding Some_in_set_where by blast
  have "sat criteria item0" using assms(5) e sat_upd_other [OF assms(2)] by (auto split: if_splits)
  then have "item0 key = val" using assms(3) i0 by blast
  then show ?thesis using e assms(1) by (auto split: if_splits)
qed

section \<open>The section for untested recipes, list by list\<close>

lemma set_where_none:
  assumes "\<not> exists_in l criteria"
  shows "set_where criteria key val l = l"
proof -
  have "map_option (\<lambda>item. if sat criteria item then item(key \<mapsto> text_of val) else item) x = x"
    if "x \<in> set (items l)" for x
  proof (cases x)
    case None
    then show ?thesis by simp
  next
    case (Some item)
    then have "\<not> sat criteria item"
      using that assms unfolding exists_in_iff by blast
    then show ?thesis using Some by simp
  qed
  then have "map (map_option (\<lambda>item. if sat criteria item then item(key \<mapsto> text_of val) else item)) (items l)
        = items l"
    by (intro map_idI)
  then show ?thesis by (simp add: set_where_def)
qed

lemma set_where_if [simp]:
  "(if exists_in l criteria then set_where criteria key val l else l) = set_where criteria key val l"
  by (simp add: set_where_none)

lemma run_Return_if [simp]:
  "run (if b then p else Return ()) s = (if b then run p s else (Inr (), s))"
  by simp

lemma run_untested_content_list:
  "run (untested_content_list site fpn vers category) s =
     (Inr (), s(''Jamf Content List'' := content_list_untested fpn vers category (s ''Jamf Content List'')))"
  by (simp add: untested_content_list_def content_list_untested_def run_methods Let_def
           del: apply_batch.simps)

lemma run_needs_review_check:
  "run (needs_review_check site sspn check) s =
     (Inr (), s(''Jamf Test Coordination'' :=
         set_where [(''Self Service Content Name'', Eq, sspn), (''Release Completed'', Eq, ''No''),
                    (''Status'', Eq, check)] ''Status'' (Some ''Needs review'')
           (s ''Jamf Test Coordination'')))"
  by (simp add: needs_review_check_def run_methods Let_def set_where_none)

lemma run_untested_test_coordination:
  "run (untested_test_coordination site fpn sspn autostage) s =
     (Inr (), s(''Jamf Test Coordination'' :=
                   test_coordination_untested fpn sspn autostage (s ''Jamf Test Coordination'')))"
  by (simp add: untested_test_coordination_def test_coordination_untested_def run_methods Let_def
                run_needs_review_check set_where_none
           del: apply_batch.simps)

lemma run_untested_test_review:
  "run (untested_test_review site fpn sspn executable_command process_name) s =
     (Inr (), s(''Jamf Test Review'' :=
                   test_review_untested fpn sspn executable_command process_name
                     (s ''Jamf Test Review'')))"
  by (simp add: untested_test_review_def test_review_untested_def run_methods Let_def
                set_where_none
           del: apply_batch.simps)

section \<open>The section for prod recipes on the production server\<close>

lemma prod_test_coordination_autostage:
  assumes "py_in ''prd'' url"
      and "exists_in (s ''Jamf Content List'')
             [(''Self Service Content'', Eq, fpn), (''Autostage'', Eq, ''Yes'')]"
  shows "exists_in (snd (run (prod_test_coordination site fpn sspn url) s) ''Jamf Test Coordination'')
           [(''Self Service Content Name'', Eq, sspn)]
       \<and> (\<forall>item. Some item \<in> set (items (snd (run (prod_test_coordination site fpn sspn url) s)
                                              ''Jamf Test Coordination''))
                 \<and> item ''Self Service Content Name'' = Some sspn
             \<longrightarrow> item ''Status'' = Some ''Autostage''
                 \<and> item ''Release Completed'' = Some ''Yes'')"
proof -
  let ?c = "[(''Self Service Content Name'', Eq, sspn)]"
  let ?l0 = "s ''Jamf Test Coordination''"
  let ?l1 = "if exists_in ?l0 ?c then ?l0
             else set_where ?c ''Final Content Name'' (Some fpn)
                    (apply_batch (New ''Self Service Content Name'' sspn) ?l0)"
  let ?l2 = "set_where ?c ''Release Completed'' (Some ''Yes'') ?l1"
  let ?l3 = "set_where ?c ''Status'' (Some ''Autostage'') ?l2"
  have res: "snd (run (prod_test_coordination site fpn sspn url) s) ''Jamf Test Coordination'' = ?l3"
    using assms by (simp add: run_prod_test_coordination Let_def del: apply_batch.simps)
  have e1: "exists_in ?l1 ?c"
    by (simp add: exists_in_set_where exists_in_New del: apply_batch.simps)
  have e3: "exists_in ?l3 ?c"
    using e1 by (simp add: exists_in_set_where del: apply_batch.simps)
  have rc: "\<forall>item. Some item \<in> set (items ?l2) \<and> sat ?c item \<longrightarrow>
              item ''Release Completed'' = Some ''Yes''"
    using set_where_sets [of "''Release Completed''" ?c _ "Some ''Yes''" ?l1] by simp
  have st: "\<forall>item. Some item \<in> set (items ?l3) \<and> sat ?c item \<longrightarrow>
              item ''Status'' = Some ''Autostage''"
    using set_where_sets [of "''Status''" ?c _ "Some ''Autostage''" ?l2] by simp
  have rc3: "\<forall>item. Some item \<in> set (items ?l3) \<and> sat ?c item \<longrightarrow>
              item ''Release Completed'' = Some ''Yes''"
    using set_where_keeps [of "''Status''" "''Release Completed''" ?c ?l2 "Some ''Yes''" _ ?c
                              "Some ''Autostage''", OF _ _ rc]
    by simp
  show ?thesis unfolding res using e3 st rc3 by simp
qed


lemma prod_content_list_prd:
  assumes "py_in ''prd'' url"
  shows "exists_in (snd (run (prod_content_list site fpn sspn vers url sp_url) s) ''Jamf Content List'')
           [(''Self Service Content'', Eq, fpn)]
       \<and> (\<forall>item. Some item \<in> set (items (snd (run (prod_content_list site fpn sspn vers url sp_url) s)
                                              ''Jamf Content List''))
                 \<and> item ''Self Service Content'' = Some fpn
             \<longrightarrow> item ''Untested Version'' = Some []
                 \<and> item ''Prod. Version'' = Some vers
                 \<and> item ''Test Report'' = Some (test_report_url sp_url sspn @ '', Test Report''))"
proof -
  let ?c = "[(''Self Service Content'', Eq, fpn)]"
  let ?l0 = "s ''Jamf Content List''"
  let ?l1 = "if exists_in ?l0 ?c then ?l0
             else apply_batch (New ''Self Service Content'' fpn) ?l0"
  let ?l2 = "set_where ?c ''Untested Version'' (Some []) ?l1"
  let ?l3 = "set_where ?c ''Prod. Version'' (Some vers) ?l2"
  let ?l4 = "set_where ?c ''Test Report'' (Some (test_report_url sp_url sspn @ '', Test Report'')) ?l3"
  have res: "snd (run (prod_content_list site fpn sspn vers url sp_url) s) ''Jamf Content List'' = ?l4"
    using assms by (simp add: run_prod_content_list Let_def del: apply_batch.simps)
  have e1: "exists_in ?l1 ?c"
    by (simp add: exists_in_New del: apply_batch.simps)
  have e4: "exists_in ?l4 ?c"
    using e1 by (simp add: exists_in_set_where del: apply_batch.simps)
  have uv2: "\<forall>item. Some item \<in> set (items ?l2) \<and> sat ?c item \<longrightarrow>
              item ''Untested Version'' = Some []"
    using set_where_sets [of "''Untested Version''" ?c _ "Some []" ?l1] by simp
  have uv3: "\<forall>item. Some item \<in> set (items ?l3) \<and> sat ?c item \<longrightarrow>
              item ''Untested Version'' = Some []"
    using set_where_keeps [of "''Prod. Version''" "''Untested Version''" ?c ?l2 "Some []" _ ?c
                              "Some vers", OF _ _ uv2]
    by simp
  have uv4: "\<forall>item. Some item \<in> set (items ?l4) \<and> sat ?c item \<longrightarrow>
              item ''Untested Version'' = Some []"
    using set_where_keeps [of "''Test Report''" "''Untested Version''" ?c ?l3 "Some []" _ ?c
                              "Some (test_report_url sp_url sspn @ '', Test Report'')", OF _ _ uv3]
    by simp
  have pv3: "\<forall>item. Some item \<in> set (items ?l3) \<and> sat ?c item \<longrightarrow>
              item ''Prod. Version'' = Some vers"
    using set_where_sets [of "''Prod. Version''" ?c _ "Some vers" ?l2] by simp
  have pv4: "\<forall>item. Some item \<in> set (items ?l4) \<and> sat ?c item \<longrightarrow>
              item ''Prod. Version'' = Some vers"
    using set_where_keeps [of "''Test Report''" "''Prod. Version''" ?c ?l3 "Some vers" _ ?c
                              "Some (test_report_url sp_url sspn @ '', Test Report'')", OF _ _ pv3]
    by simp
  have tr4: "\<forall>item. Some item \<in> set (items ?l4) \<and> sat ?c item \<longrightarrow>
              item ''Test Report'' = Some (test_report_url sp_url sspn @ '', Test Report'')"
    using set_where_sets [of "''Test Report''" ?c _
             "Some (test_report_url sp_url sspn @ '', Test Report'')" ?l3] by simp
  show ?thesis unfolding res using e4 uv4 pv4 tr4 by simp
qed

lemma run_untested:
  "run (untested i) s =
     (let fpn = untested_final_policy_name i;
          sspn = self_service_policy_name_of fpn (version i);
          cl = content_list_untested fpn (version i) (PKG_CATEGORY i) (s ''Jamf Content List'');
          autostage = exists_in cl [(''Self Service Content'', Eq, fpn), (''Autostage'', Eq, ''Yes'')]
      in (Inr (),
          s(''Jamf Content List'' := cl,
            ''Jamf Test Coordination'' :=
               test_coordination_untested fpn sspn autostage (s ''Jamf Test Coordination''),
            ''Jamf Test Review'' :=
               test_review_untested fpn sspn (SP_EXECUTABLE_COMMAND i) (SP_PROCESS_NAME i)
                 (s ''Jamf Test Review''))))"
  by (simp add: untested_def run_bind run_connect_sharepoint run_untested_content_list
        run_check_list run_untested_test_coordination run_untested_test_review Let_def)

lemma run_main_completes: "fst (run (main i) s) = Inr ()"
  by (simp add: main_def run_untested run_prod Let_def split: option.splits)

lemma main_completes_no_faults: "completes (exec no_faults (main i) w)"
proof -
  obtain s' where r: "run (main i) (site_lists w) = (Inr (), s')"
    using run_main_completes [of i "site_lists w"] by (cases "run (main i) (site_lists w)") auto
  have "\<exists>cs'. exec no_faults (main i) \<lparr>site_lists = site_lists w, calls = calls w\<rparr>
       = Done () \<lparr>site_lists = s', calls = calls w @ cs'\<rparr>"
    by (rule run_exec_no_faults [OF r])
  moreover have "\<lparr>site_lists = site_lists w, calls = calls w\<rparr> = w" by simp
  ultimately show ?thesis by auto
qed


lemma completes_Done: "completes out \<Longrightarrow> \<exists>x w'. out = Done x w'"
  by (cases out) auto

lemma completes_main_prod:
  assumes "SELFSERVICE_POLICY_NAME i = Some fpn" and "fpn \<noteq> []"
      and "completes (exec fails (main i) w)"
  shows "site_lists (world_of (exec fails (main i) w)) = snd (run (prod i fpn) (site_lists w))"
proof -
  obtain x w' where d: "exec fails (main i) w = Done x w'"
    using completes_Done [OF assms(3)] by blast
  show ?thesis
    using exec_Done_run [OF d] main_prod [OF assms(1,2)] d by simp
qed

text \<open>
  Claim C3. A run of the section for prod recipes (a final policy name is supplied) on
  the production server (the JSS URL contains \<open>prd\<close>) that completes, started where the
  Jamf Content List holds an entry for the final policy name with Autostage \<open>Yes\<close>, leaves
  an entry of Jamf Test Coordination for the self-service policy name, and every such
  entry has Status \<open>Autostage\<close> and Release Completed \<open>Yes\<close>; it leaves an entry of the Jamf
  Content List for the final policy name, and every such entry has an empty Untested
  Version, the run's version as Prod. Version, and as Test Report the SharePoint URL, then
  \<open>/Lists/Jamf_Item_Test/DispForm.aspx?\<close>, then the URL-encoded parameter \<open>Title\<close> with the
  self-service policy name, then \<open>, Test Report\<close>.
\<close>

theorem prod_prd_autostage:
  assumes "SELFSERVICE_POLICY_NAME i = Some fpn" and "fpn \<noteq> []"
      and "py_in ''prd'' (JSS_URL i)"
      and "exists_in (site_lists w ''Jamf Content List'')
             [(''Self Service Content'', Eq, fpn), (''Autostage'', Eq, ''Yes'')]"
      and "completes (exec fails (main i) w)"
  shows "exists_in (site_lists (world_of (exec fails (main i) w)) ''Jamf Test Coordination'')
           [(''Self Service Content Name'', Eq, fpn @ '' (Testing) v'' @ version i)]
       \<and> (\<forall>item. Some item \<in> set (items (site_lists (world_of (exec fails (main i) w))
                                              ''Jamf Test Coordination''))
                 \<and> item ''Self Service Content Name'' = Some (fpn @ '' (Testing) v'' @ version i)
             \<longrightarrow> item ''Status'' = Some ''Autostage''
                 \<and> item ''Release Completed'' = Some ''Yes'')
       \<and> exists_in (site_lists (world_of (exec fails (main i) w)) ''Jamf Content List'')
           [(''Self Service Content'', Eq, fpn)]
       \<and> (\<forall>item. Some item \<in> set (items (site_lists (world_of (exec fails (main i) w))
                                              ''Jamf Content List''))
                 \<and> item ''Self Service Content'' = Some fpn
             \<longrightarrow> item ''Untested Version'' = Some []
                 \<and> item ''Prod. Version'' = Some (version i)
                 \<and> item ''Test Report'' =
                     Some (SP_URL i @ ''/Lists/Jamf_Item_Test/DispForm.aspx?''
                           @ urlencode [(''Title'', fpn @ '' (Testing) v'' @ version i)]
                           @ '', Test Report''))"
proof -
  have n: "fpn @ '' (Testing) v'' @ version i = self_service_policy_name_of fpn (version i)"
    by (simp add: self_service_policy_name_of_def)
  have u: "SP_URL i @ ''/Lists/Jamf_Item_Test/DispForm.aspx?''
             @ urlencode [(''Title'', self_service_policy_name_of fpn (version i))] @ '', Test Report''
           = test_report_url (SP_URL i) (self_service_policy_name_of fpn (version i)) @ '', Test Report''"
    by (simp add: test_report_url_def)
  show ?thesis
    unfolding completes_main_prod [OF assms(1,2,5)] prod_Test_Coordination prod_Content_List n u
    using prod_test_coordination_autostage
            [of "JSS_URL i" "site_lists w" fpn "Site_object (SP_URL i)"
                "self_service_policy_name_of fpn (version i)", OF assms(3,4)]
          prod_content_list_prd
            [of "JSS_URL i" "Site_object (SP_URL i)" fpn
                "self_service_policy_name_of fpn (version i)" "version i" "SP_URL i"
                "site_lists w", OF assms(3)]
    by blast
qed

theorem prod_prd_autostage_witness:
  "py_in ''prd'' (JSS_URL example_inputs)
   \<and> exists_in (autostage_site ''Jamf Content List'')
         [(''Self Service Content'', Eq, ''Foo''), (''Autostage'', Eq, ''Yes'')]
   \<and> completes (exec no_faults (main (example_inputs\<lparr>SELFSERVICE_POLICY_NAME := Some ''Foo''\<rparr>))
                  \<lparr>site_lists = autostage_site, calls = []\<rparr>)
   \<and> exists_in (site_lists (world_of
          (exec no_faults (main (example_inputs\<lparr>SELFSERVICE_POLICY_NAME := Some ''Foo''\<rparr>))
             \<lparr>site_lists = autostage_site, calls = []\<rparr>)) ''Jamf Test Coordination'')
         [(''Self Service Content Name'', Eq, ''Foo (Testing) v1.0''),
          (''Status'', Eq, ''Autostage''), (''Release Completed'', Eq, ''Yes'')]
   \<and> exists_in (site_lists (world_of
          (exec no_faults (main (example_inputs\<lparr>SELFSERVICE_POLICY_NAME := Some ''Foo''\<rparr>))
             \<lparr>site_lists = autostage_site, calls = []\<rparr>)) ''Jamf Content List'')
         [(''Self Service Content'', Eq, ''Foo''), (''Untested Version'', Eq, []),
          (''Prod. Version'', Eq, ''1.0''),
          (''Test Report'', Eq,
           ''https://sp.example.com/Lists/Jamf_Item_Test/DispForm.aspx?Title=Foo+%28Testing%29+v1.0, Test Report'')]"
proof -
  let ?i = "example_inputs\<lparr>SELFSERVICE_POLICY_NAME := Some ''Foo''\<rparr>"
  let ?w = "\<lparr>site_lists = autostage_site, calls = []\<rparr>"
  have h1: "SELFSERVICE_POLICY_NAME ?i = Some ''Foo''" by simp
  have h2: "''Foo'' \<noteq> []" by simp
  have h3: "py_in ''prd'' (JSS_URL ?i)" by (simp add: example_inputs_def)
  have h4: "exists_in (site_lists ?w ''Jamf Content List'')
              [(''Self Service Content'', Eq, ''Foo''), (''Autostage'', Eq, ''Yes'')]"
    by (simp add: autostage_site_def exists_in_def)
  have h5: "completes (exec no_faults (main ?i) ?w)" by (rule main_completes_no_faults)
  have v: "version ?i = ''1.0''" and u: "SP_URL ?i = ''https://sp.example.com''"
    by (simp_all add: example_inputs_def)
  define tc where "tc = site_lists (world_of (exec no_faults (main ?i) ?w)) ''Jamf Test Coordination''"
  define cl where "cl = site_lists (world_of (exec no_faults (main ?i) ?w)) ''Jamf Content List''"
  have t: "exists_in tc [(''Self Service Content Name'', Eq, ''Foo (Testing) v1.0'')]
       \<and> (\<forall>item. Some item \<in> set (items tc)
                 \<and> item ''Self Service Content Name'' = Some ''Foo (Testing) v1.0''
             \<longrightarrow> item ''Status'' = Some ''Autostage''
                 \<and> item ''Release Completed'' = Some ''Yes'')
       \<and> exists_in cl [(''Self Service Content'', Eq, ''Foo'')]
       \<and> (\<forall>item. Some item \<in> set (items cl)
                 \<and> item ''Self Service Content'' = Some ''Foo''
             \<longrightarrow> item ''Untested Version'' = Some []
                 \<and> item ''Prod. Version'' = Some ''1.0''
                 \<and> item ''Test Report'' =
                     Some ''https://sp.example.com/Lists/Jamf_Item_Test/DispForm.aspx?Title=Foo+%28Testing%29+v1.0, Test Report'')"
    using prod_prd_autostage [OF h1 h2 h3 h4 h5, folded tc_def cl_def]
    by (simp add: v u quote_plus_def quote_byte_def always_safe_def hex_digit_def)
  from t obtain a where a: "Some a \<in> set (items tc)"
      "a ''Self Service Content Name'' = Some ''Foo (Testing) v1.0''"
    unfolding exists_in_iff by auto
  with t have "a ''Status'' = Some ''Autostage''" "a ''Release Completed'' = Some ''Yes''"
    by blast+
  with a have c1: "exists_in tc [(''Self Service Content Name'', Eq, ''Foo (Testing) v1.0''),
          (''Status'', Eq, ''Autostage''), (''Release Completed'', Eq, ''Yes'')]"
    unfolding exists_in_iff by auto
  from t obtain b where b: "Some b \<in> set (items cl)" "b ''Self Service Content'' = Some ''Foo''"
    unfolding exists_in_iff by auto
  with t have "b ''Untested Version'' = Some []" "b ''Prod. Version'' = Some ''1.0''"
    "b ''Test Report'' = Some ''https://sp.example.com/Lists/Jamf_Item_Test/DispForm.aspx?Title=Foo+%28Testing%29+v1.0, Test Report''"
    by blast+
  with b have c2: "exists_in cl [(''Self Service Content'', Eq, ''Foo''), (''Untested Version'', Eq, []),
          (''Prod. Version'', Eq, ''1.0''),
          (''Test Report'', Eq,
           ''https://sp.example.com/Lists/Jamf_Item_Test/DispForm.aspx?Title=Foo+%28Testing%29+v1.0, Test Report'')]"
    unfolding exists_in_iff by auto
  have h3': "py_in ''prd'' (JSS_URL example_inputs)" using h3 by simp
  have h4': "exists_in (autostage_site ''Jamf Content List'')
         [(''Self Service Content'', Eq, ''Foo''), (''Autostage'', Eq, ''Yes'')]" using h4 by simp
  show ?thesis
    using h3' h4' h5 c1 c2 unfolding tc_def cl_def by blast
qed

section \<open>The section for prod recipes on the test server\<close>

lemma length_set_where [simp]: "length (items (set_where criteria key val l)) = length (items l)"
  by (simp add: items_set_where)

lemma nth_set_where:
  "j < length (items l) \<Longrightarrow>
     items (set_where criteria key val l) ! j =
       map_option (\<lambda>item. if sat criteria item then item(key \<mapsto> text_of val) else item) (items l ! j)"
  by (simp add: items_set_where)

lemma column_set_where:
  assumes "key' \<noteq> key" and "j < length (items l)"
  shows "map_option (\<lambda>item. item key') (items (set_where criteria key val l) ! j)
           = map_option (\<lambda>item. item key') (items l ! j)"
  using assms by (cases "items l ! j") (auto simp: nth_set_where)

lemma length_New [simp]: "length (items (apply_batch (New key val) l)) = Suc (length (items l))"
  by simp

lemma nth_New:
  "j \<le> length (items l) \<Longrightarrow>
     items (apply_batch (New key val) l) ! j =
       (if j < length (items l) then items l ! j else Some ((new_item l)(key \<mapsto> val)))"
  by (auto simp: nth_append)

lemma prod_test_review_tst:
  fixes s :: site_state and site fpn sspn url
  assumes "py_in ''tst'' url"
  defines "tr \<equiv> s ''Jamf Test Review''"
      and "tr' \<equiv> snd (run (prod_test_review site fpn sspn url) s) ''Jamf Test Review''"
  shows "exists_in tr' [(''Self Service Content Name'', Eq, sspn)]"
    and "\<forall>item. Some item \<in> set (items tr') \<and> item ''Self Service Content Name'' = Some sspn
             \<longrightarrow> item ''Release Completed TST'' = Some ''Yes''
                 \<and> item ''Ready for Production'' = Some ''Yes''"
    and "length (items tr) \<le> length (items tr')"
    and "\<forall>j. j < length (items tr) \<longrightarrow>
             map_option (\<lambda>item. item ''Release Completed PRD'') (items tr' ! j)
               = map_option (\<lambda>item. item ''Release Completed PRD'') (items tr ! j)"
    and "\<forall>j. length (items tr) \<le> j \<and> j < length (items tr') \<longrightarrow>
             (\<exists>item. items tr' ! j = Some item
                \<and> item ''Release Completed PRD'' = new_item tr ''Release Completed PRD'')"
proof -
  let ?c = "[(''Self Service Content Name'', Eq, sspn)]"
  let ?l1 = "if exists_in tr ?c then tr
             else set_where ?c ''Final Content Name'' (Some fpn)
                    (apply_batch (New ''Self Service Content Name'' sspn) tr)"
  let ?l2 = "set_where ?c ''Release Completed TST'' (Some ''Yes'') ?l1"
  let ?l3 = "set_where ?c ''Ready for Production'' (Some ''Yes'') ?l2"
  have res: "tr' = ?l3"
    using assms(1) unfolding tr'_def tr_def
    by (simp add: run_prod_test_review Let_def del: apply_batch.simps)
  have e1: "exists_in ?l1 ?c"
    by (simp add: exists_in_set_where exists_in_New del: apply_batch.simps)
  show "exists_in tr' ?c"
    unfolding res using e1 by (simp add: exists_in_set_where del: apply_batch.simps)
  have tst2: "\<forall>item. Some item \<in> set (items ?l2) \<and> sat ?c item \<longrightarrow>
              item ''Release Completed TST'' = Some ''Yes''"
    using set_where_sets [of "''Release Completed TST''" ?c _ "Some ''Yes''" ?l1] by simp
  have tst3: "\<forall>item. Some item \<in> set (items ?l3) \<and> sat ?c item \<longrightarrow>
              item ''Release Completed TST'' = Some ''Yes''"
    using set_where_keeps [of "''Ready for Production''" "''Release Completed TST''" ?c ?l2
                              "Some ''Yes''" _ ?c "Some ''Yes''", OF _ _ tst2]
    by simp
  have rdy3: "\<forall>item. Some item \<in> set (items ?l3) \<and> sat ?c item \<longrightarrow>
              item ''Ready for Production'' = Some ''Yes''"
    using set_where_sets [of "''Ready for Production''" ?c _ "Some ''Yes''" ?l2] by simp
  show "\<forall>item. Some item \<in> set (items tr') \<and> item ''Self Service Content Name'' = Some sspn
             \<longrightarrow> item ''Release Completed TST'' = Some ''Yes''
                 \<and> item ''Ready for Production'' = Some ''Yes''"
    unfolding res using tst3 rdy3 by simp
  have len1: "length (items ?l1) = (if exists_in tr ?c then length (items tr) else Suc (length (items tr)))"
    by (simp del: apply_batch.simps)
  show "length (items tr) \<le> length (items tr')"
    unfolding res by (simp del: apply_batch.simps)
  have col: "map_option (\<lambda>item. item ''Release Completed PRD'') (items ?l3 ! j)
               = map_option (\<lambda>item. item ''Release Completed PRD'') (items ?l1 ! j)"
    if "j < length (items ?l1)" for j
    using that by (simp add: column_set_where del: apply_batch.simps)
  show "\<forall>j. j < length (items tr) \<longrightarrow>
             map_option (\<lambda>item. item ''Release Completed PRD'') (items tr' ! j)
               = map_option (\<lambda>item. item ''Release Completed PRD'') (items tr ! j)"
  proof (intro allI impI)
    fix j assume j: "j < length (items tr)"
    then have j1: "j < length (items ?l1)" by (simp del: apply_batch.simps)
    have "map_option (\<lambda>item. item ''Release Completed PRD'') (items ?l1 ! j)
            = map_option (\<lambda>item. item ''Release Completed PRD'') (items tr ! j)"
      using j by (simp add: column_set_where nth_New del: apply_batch.simps)
    then show "map_option (\<lambda>item. item ''Release Completed PRD'') (items tr' ! j)
               = map_option (\<lambda>item. item ''Release Completed PRD'') (items tr ! j)"
      unfolding res using col [OF j1] by simp
  qed
  show "\<forall>j. length (items tr) \<le> j \<and> j < length (items tr') \<longrightarrow>
             (\<exists>item. items tr' ! j = Some item
                \<and> item ''Release Completed PRD'' = new_item tr ''Release Completed PRD'')"
  proof (intro allI impI)
    fix j assume "length (items tr) \<le> j \<and> j < length (items tr')"
    then have ne: "\<not> exists_in tr ?c" and j: "j = length (items tr)"
      unfolding res by (auto simp del: apply_batch.simps split: if_splits)
    have j1: "j < length (items ?l1)" using ne j by (simp del: apply_batch.simps)
    have "map_option (\<lambda>item. item ''Release Completed PRD'') (items ?l1 ! j)
            = Some (new_item tr ''Release Completed PRD'')"
      using ne j
      by (simp add: column_set_where nth_New del: apply_batch.simps)
    then have "map_option (\<lambda>item. item ''Release Completed PRD'') (items tr' ! j)
            = Some (new_item tr ''Release Completed PRD'')"
      unfolding res using col [OF j1] by simp
    then show "\<exists>item. items tr' ! j = Some item
                \<and> item ''Release Completed PRD'' = new_item tr ''Release Completed PRD''"
      by auto
  qed
qed

lemma not_exists_in_nth:
  assumes "\<not> exists_in l criteria" and "j < length (items l)" and "items l ! j = Some item"
  shows "\<not> sat criteria item"
proof -
  have "Some item \<in> set (items l)" using assms(2,3) by (metis nth_mem)
  then show ?thesis using assms(1) unfolding exists_in_iff by blast
qed

lemma prod_test_review_tst_items:
  fixes s :: site_state and site fpn sspn url
  assumes "py_in ''tst'' url"
  defines "tr \<equiv> s ''Jamf Test Review''"
      and "tr' \<equiv> snd (run (prod_test_review site fpn sspn url) s) ''Jamf Test Review''"
  shows "length (items tr') =
           (if exists_in tr [(''Self Service Content Name'', Eq, sspn)]
            then length (items tr) else Suc (length (items tr)))"
    and "\<forall>j. j < length (items tr) \<longrightarrow>
           items tr' ! j =
             map_option (\<lambda>item. if item ''Self Service Content Name'' = Some sspn
                                then item(''Release Completed TST'' \<mapsto> ''Yes'',
                                          ''Ready for Production'' \<mapsto> ''Yes'')
                                else item) (items tr ! j)"
    and "\<not> exists_in tr [(''Self Service Content Name'', Eq, sspn)] \<longrightarrow>
           items tr' ! length (items tr) =
             Some ((new_item tr)(''Self Service Content Name'' \<mapsto> sspn,
                                 ''Final Content Name'' \<mapsto> fpn,
                                 ''Release Completed TST'' \<mapsto> ''Yes'',
                                 ''Ready for Production'' \<mapsto> ''Yes''))"
proof -
  let ?c = "[(''Self Service Content Name'', Eq, sspn)]"
  let ?l1 = "if exists_in tr ?c then tr
             else set_where ?c ''Final Content Name'' (Some fpn)
                    (apply_batch (New ''Self Service Content Name'' sspn) tr)"
  let ?l2 = "set_where ?c ''Release Completed TST'' (Some ''Yes'') ?l1"
  let ?l3 = "set_where ?c ''Ready for Production'' (Some ''Yes'') ?l2"
  have res: "tr' = ?l3"
    using assms(1) unfolding tr'_def tr_def
    by (simp add: run_prod_test_review Let_def del: apply_batch.simps)
  show "length (items tr') =
           (if exists_in tr ?c then length (items tr) else Suc (length (items tr)))"
    unfolding res by (simp del: apply_batch.simps)
  show "\<forall>j. j < length (items tr) \<longrightarrow>
           items tr' ! j =
             map_option (\<lambda>item. if item ''Self Service Content Name'' = Some sspn
                                then item(''Release Completed TST'' \<mapsto> ''Yes'',
                                          ''Ready for Production'' \<mapsto> ''Yes'')
                                else item) (items tr ! j)"
  proof (intro allI impI)
    fix j assume j: "j < length (items tr)"
    show "items tr' ! j =
             map_option (\<lambda>item. if item ''Self Service Content Name'' = Some sspn
                                then item(''Release Completed TST'' \<mapsto> ''Yes'',
                                          ''Ready for Production'' \<mapsto> ''Yes'')
                                else item) (items tr ! j)"
    proof (cases "exists_in tr ?c")
      case True
      then show ?thesis
        unfolding res using j by (cases "items tr ! j") (simp_all add: nth_set_where)
    next
      case False
      show ?thesis
      proof (cases "items tr ! j")
        case None
        then show ?thesis
          unfolding res using j False by (simp add: nth_set_where nth_New del: apply_batch.simps)
      next
        case (Some item)
        then have "\<not> sat ?c item" using not_exists_in_nth [OF False j] by blast
        then show ?thesis
          unfolding res using j False Some
          by (simp add: nth_set_where nth_New del: apply_batch.simps)
      qed
    qed
  qed
  show "\<not> exists_in tr ?c \<longrightarrow>
           items tr' ! length (items tr) =
             Some ((new_item tr)(''Self Service Content Name'' \<mapsto> sspn,
                                 ''Final Content Name'' \<mapsto> fpn,
                                 ''Release Completed TST'' \<mapsto> ''Yes'',
                                 ''Ready for Production'' \<mapsto> ''Yes''))"
    unfolding res by (simp add: nth_set_where nth_New del: apply_batch.simps)
qed

text \<open>
  Claim C4. A run of the section for prod recipes (a final policy name is supplied) on
  the test server (the JSS URL contains \<open>tst\<close>) that completes upserts the entry of Jamf
  Test Review for the self-service policy name: afterwards there is such an entry, and
  every such entry has Release Completed TST \<open>Yes\<close> and Ready for Production \<open>Yes\<close>. When
  there was such an entry before, the run adds none; when there was none, it adds exactly
  one, at the end of the list, with the self-service policy name, the final content name
  and the two columns set, on top of what the list gives to a new item. Every entry that
  was there before is as it was, but for these two columns of the entries for the
  self-service policy name; in particular no entry that was there before has another
  Release Completed PRD than before, and an entry that the run adds has the Release
  Completed PRD that the list gives to a new item.
\<close>

theorem prod_tst_test_review:
  assumes "SELFSERVICE_POLICY_NAME i = Some fpn" and "fpn \<noteq> []"
      and "py_in ''tst'' (JSS_URL i)"
      and "completes (exec fails (main i) w)"
  shows "exists_in (site_lists (world_of (exec fails (main i) w)) ''Jamf Test Review'')
           [(''Self Service Content Name'', Eq, fpn @ '' (Testing) v'' @ version i)]
       \<and> (\<forall>item. Some item \<in> set (items (site_lists (world_of (exec fails (main i) w))
                                              ''Jamf Test Review''))
                 \<and> item ''Self Service Content Name'' = Some (fpn @ '' (Testing) v'' @ version i)
             \<longrightarrow> item ''Release Completed TST'' = Some ''Yes''
                 \<and> item ''Ready for Production'' = Some ''Yes'')
       \<and> length (items (site_lists w ''Jamf Test Review''))
           \<le> length (items (site_lists (world_of (exec fails (main i) w)) ''Jamf Test Review''))
       \<and> (\<forall>j. j < length (items (site_lists w ''Jamf Test Review'')) \<longrightarrow>
             map_option (\<lambda>item. item ''Release Completed PRD'')
               (items (site_lists (world_of (exec fails (main i) w)) ''Jamf Test Review'') ! j)
             = map_option (\<lambda>item. item ''Release Completed PRD'')
                 (items (site_lists w ''Jamf Test Review'') ! j))
       \<and> (\<forall>j. length (items (site_lists w ''Jamf Test Review'')) \<le> j
               \<and> j < length (items (site_lists (world_of (exec fails (main i) w))
                                       ''Jamf Test Review''))
             \<longrightarrow> (\<exists>item. items (site_lists (world_of (exec fails (main i) w))
                                    ''Jamf Test Review'') ! j = Some item
                    \<and> item ''Release Completed PRD''
                        = new_item (site_lists w ''Jamf Test Review'') ''Release Completed PRD''))
       \<and> length (items (site_lists (world_of (exec fails (main i) w)) ''Jamf Test Review''))
           = (if exists_in (site_lists w ''Jamf Test Review'')
                   [(''Self Service Content Name'', Eq, fpn @ '' (Testing) v'' @ version i)]
              then length (items (site_lists w ''Jamf Test Review''))
              else Suc (length (items (site_lists w ''Jamf Test Review''))))
       \<and> (\<forall>j. j < length (items (site_lists w ''Jamf Test Review'')) \<longrightarrow>
             items (site_lists (world_of (exec fails (main i) w)) ''Jamf Test Review'') ! j
             = map_option
                 (\<lambda>item. if item ''Self Service Content Name''
                               = Some (fpn @ '' (Testing) v'' @ version i)
                          then item(''Release Completed TST'' \<mapsto> ''Yes'',
                                    ''Ready for Production'' \<mapsto> ''Yes'')
                          else item)
                 (items (site_lists w ''Jamf Test Review'') ! j))
       \<and> (\<not> exists_in (site_lists w ''Jamf Test Review'')
                [(''Self Service Content Name'', Eq, fpn @ '' (Testing) v'' @ version i)]
            \<longrightarrow> items (site_lists (world_of (exec fails (main i) w)) ''Jamf Test Review'')
                  ! length (items (site_lists w ''Jamf Test Review''))
                = Some ((new_item (site_lists w ''Jamf Test Review''))
                          (''Self Service Content Name'' \<mapsto> fpn @ '' (Testing) v'' @ version i,
                           ''Final Content Name'' \<mapsto> fpn,
                           ''Release Completed TST'' \<mapsto> ''Yes'',
                           ''Ready for Production'' \<mapsto> ''Yes'')))"
proof -
  have n: "fpn @ '' (Testing) v'' @ version i = self_service_policy_name_of fpn (version i)"
    by (simp add: self_service_policy_name_of_def)
  note t = prod_test_review_tst
             [where s = "site_lists w" and site = "Site_object (SP_URL i)" and fpn = fpn
                 and sspn = "self_service_policy_name_of fpn (version i)"
                 and url = "JSS_URL i", OF assms(3)]
  note u = prod_test_review_tst_items
             [where s = "site_lists w" and site = "Site_object (SP_URL i)" and fpn = fpn
                 and sspn = "self_service_policy_name_of fpn (version i)"
                 and url = "JSS_URL i", OF assms(3)]
  show ?thesis
    unfolding completes_main_prod [OF assms(1,2,4)] prod_Test_Review n
    using t u by blast
qed

theorem prod_tst_test_review_witness:
  "py_in ''tst'' ''https://jss.tst.example.com''
   \<and> completes (exec no_faults
         (main (example_inputs\<lparr>SELFSERVICE_POLICY_NAME := Some ''Foo'',
                                JSS_URL := ''https://jss.tst.example.com''\<rparr>))
         \<lparr>site_lists = review_site, calls = []\<rparr>)
   \<and> exists_in (site_lists (world_of (exec no_faults
         (main (example_inputs\<lparr>SELFSERVICE_POLICY_NAME := Some ''Foo'',
                                JSS_URL := ''https://jss.tst.example.com''\<rparr>))
         \<lparr>site_lists = review_site, calls = []\<rparr>)) ''Jamf Test Review'')
         [(''Self Service Content Name'', Eq, ''Foo (Testing) v1.0''),
          (''Release Completed TST'', Eq, ''Yes''), (''Ready for Production'', Eq, ''Yes'')]
   \<and> map_option (\<lambda>item. item ''Release Completed PRD'')
         (items (site_lists (world_of (exec no_faults
            (main (example_inputs\<lparr>SELFSERVICE_POLICY_NAME := Some ''Foo'',
                                   JSS_URL := ''https://jss.tst.example.com''\<rparr>))
            \<lparr>site_lists = review_site, calls = []\<rparr>)) ''Jamf Test Review'') ! 0)
       = Some (Some ''No'')
   \<and> length (items (site_lists (world_of (exec no_faults
            (main (example_inputs\<lparr>SELFSERVICE_POLICY_NAME := Some ''Foo'',
                                   JSS_URL := ''https://jss.tst.example.com''\<rparr>))
            \<lparr>site_lists = review_site, calls = []\<rparr>)) ''Jamf Test Review'')) = 1"
proof -
  let ?i = "example_inputs\<lparr>SELFSERVICE_POLICY_NAME := Some ''Foo'',
                            JSS_URL := ''https://jss.tst.example.com''\<rparr>"
  let ?w = "\<lparr>site_lists = review_site, calls = []\<rparr>"
  have h1: "SELFSERVICE_POLICY_NAME ?i = Some ''Foo''" by simp
  have h2: "''Foo'' \<noteq> []" by simp
  have h3: "py_in ''tst'' (JSS_URL ?i)" by simp
  have h4: "completes (exec no_faults (main ?i) ?w)" by (rule main_completes_no_faults)
  define tr where "tr = site_lists (world_of (exec no_faults (main ?i) ?w)) ''Jamf Test Review''"
  have n: "''Foo'' @ '' (Testing) v'' @ version ?i = ''Foo (Testing) v1.0''"
    by (simp add: example_inputs_def)
  note t = prod_tst_test_review [OF h1 h2 h3 h4, folded tr_def, unfolded n]
  from t obtain a where a: "Some a \<in> set (items tr)"
      "a ''Self Service Content Name'' = Some ''Foo (Testing) v1.0''"
    unfolding exists_in_iff by auto
  with t have "a ''Release Completed TST'' = Some ''Yes''" "a ''Ready for Production'' = Some ''Yes''"
    by blast+
  with a have c1: "exists_in tr [(''Self Service Content Name'', Eq, ''Foo (Testing) v1.0''),
          (''Release Completed TST'', Eq, ''Yes''), (''Ready for Production'', Eq, ''Yes'')]"
    unfolding exists_in_iff by auto
  have "0 < length (items (site_lists ?w ''Jamf Test Review''))"
    by (simp add: review_site_def)
  with t have "map_option (\<lambda>item. item ''Release Completed PRD'') (items tr ! 0)
      = map_option (\<lambda>item. item ''Release Completed PRD'')
          (items (site_lists ?w ''Jamf Test Review'') ! 0)"
    by blast
  then have c2: "map_option (\<lambda>item. item ''Release Completed PRD'') (items tr ! 0)
      = Some (Some ''No'')"
    by (simp add: review_site_def)
  have e: "exists_in (site_lists ?w ''Jamf Test Review'')
             [(''Self Service Content Name'', Eq, ''Foo (Testing) v1.0'')]"
    by (simp add: review_site_def exists_in_def)
  have "length (items tr)
          = (if exists_in (site_lists ?w ''Jamf Test Review'')
                   [(''Self Service Content Name'', Eq, ''Foo (Testing) v1.0'')]
              then length (items (site_lists ?w ''Jamf Test Review''))
              else Suc (length (items (site_lists ?w ''Jamf Test Review''))))"
    using t by blast
  then have c3: "length (items tr) = 1"
    unfolding if_P [OF e] by (simp add: review_site_def)
  have h3': "py_in ''tst'' ''https://jss.tst.example.com''" using h3 by simp
  show ?thesis
    using h3' h4 c1 c2 c3 unfolding tr_def by blast
qed

section \<open>A run in which a call fails\<close>




























end
